theory Spec2Isabelle
  imports Complex_Main
begin

section \<open>The graphics context as the helpers see it\<close>

text \<open>
  Every function of \<^verbatim>\<open>scripts/wegl-utils.js\<close> talks to a \<^verbatim>\<open>WebGLRenderingContext\<close>
  it is handed as \<^verbatim>\<open>gl\<close>. The context is not part of the repository. It is modelled as
  the list of calls it has received so far (oldest first), each query recorded together
  with the value it returned, and a record of response functions that may look at that
  list before answering: a deterministic context with arbitrary internal state.
\<close>

type_synonym handle = nat
type_synonym glenum = nat

text \<open>A value read from a property of a JavaScript object: a number, or \<^verbatim>\<open>undefined\<close>.\<close>

datatype jsval = Undefined | Number real

datatype gl_call =
    CreateShader glenum handle
  | ShaderSource handle string
  | CompileShader handle
  | GetShaderParameter handle glenum bool
  | DeleteShader handle
  | GetShaderInfoLog handle "string option"
  | CreateProgram handle
  | AttachShader handle handle
  | LinkProgram handle
  | GetProgramParameter handle glenum bool
  | ValidateProgram handle
  | GetProgramInfoLog handle "string option"
  | DeleteProgram handle
  | CreateBuffer handle
  | BindBuffer glenum handle
  | BufferData glenum "real list option" glenum
  | DeleteBuffer handle
  | GetAttribLocation handle string int
  | VertexAttribPointer int int glenum bool int int
  | EnableVertexAttribArray int
  | Viewport int int int int
  | ClearColor jsval jsval jsval jsval
  | Clear glenum
  | UseProgram handle
  | DrawArrays glenum int int

text \<open>
  The answers of the context. Each function receives the calls made before the one it
  answers. \<open>getShaderParameter_r\<close> and \<open>getProgramParameter_r\<close> give the truthiness of
  the returned status, which is all the source looks at; the info logs are
  \<^verbatim>\<open>DOMString?\<close>, so \<open>None\<close> is \<^verbatim>\<open>null\<close>.
\<close>

record gl_context =
  createShader_r :: "gl_call list \<Rightarrow> glenum \<Rightarrow> handle"
  getShaderParameter_r :: "gl_call list \<Rightarrow> handle \<Rightarrow> glenum \<Rightarrow> bool"
  getShaderInfoLog_r :: "gl_call list \<Rightarrow> handle \<Rightarrow> string option"
  createProgram_r :: "gl_call list \<Rightarrow> handle"
  getProgramParameter_r :: "gl_call list \<Rightarrow> handle \<Rightarrow> glenum \<Rightarrow> bool"
  getProgramInfoLog_r :: "gl_call list \<Rightarrow> handle \<Rightarrow> string option"
  createBuffer_r :: "gl_call list \<Rightarrow> handle"
  getAttribLocation_r :: "gl_call list \<Rightarrow> handle \<Rightarrow> string \<Rightarrow> int"
  canvas_width :: int
  canvas_height :: int

text \<open>The enumerants the source reads off the context, with their WebGL 1.0 values.\<close>

definition VERTEX_SHADER :: glenum where "VERTEX_SHADER = 35633"
definition FRAGMENT_SHADER :: glenum where "FRAGMENT_SHADER = 35632"
definition COMPILE_STATUS :: glenum where "COMPILE_STATUS = 35713"
definition LINK_STATUS :: glenum where "LINK_STATUS = 35714"
definition VALIDATE_STATUS :: glenum where "VALIDATE_STATUS = 35715"
definition ARRAY_BUFFER :: glenum where "ARRAY_BUFFER = 34962"
definition STATIC_DRAW :: glenum where "STATIC_DRAW = 35044"
definition COLOR_BUFFER_BIT :: glenum where "COLOR_BUFFER_BIT = 16384"
definition TRIANGLE_STRIP :: glenum where "TRIANGLE_STRIP = 5"
definition FLOAT :: glenum where "FLOAT = 5126"

text \<open>
  What a \<^verbatim>\<open>throw\<close> carries: \<^verbatim>\<open>new Error(message)\<close>, the \<^verbatim>\<open>TypeError\<close> the language
  raises when a property of \<^verbatim>\<open>null\<close> is read, or the \<^verbatim>\<open>SyntaxError\<close> exception that
  \<^verbatim>\<open>document.querySelector\<close> throws for a string that is not a selector.
\<close>

datatype js_error = Error string | TypeError | SyntaxError

text \<open>String conversion of a \<^verbatim>\<open>DOMString?\<close> in a template literal or under \<^verbatim>\<open>+\<close>.\<close>

fun to_string :: "string option \<Rightarrow> string" where
  "to_string None = ''null''"
| "to_string (Some s) = s"

section \<open>makeShader\<close>

definition makeShader ::
  "gl_context \<Rightarrow> gl_call list \<Rightarrow> string \<Rightarrow> glenum \<Rightarrow> (js_error + handle) \<times> gl_call list" where
  "makeShader gl t shaderSource shaderType =
    (let newShader = createShader_r gl t shaderType;
         t1 = t @ [CreateShader shaderType newShader];
         t2 = t1 @ [ShaderSource newShader shaderSource];
         t3 = t2 @ [CompileShader newShader];
         status = getShaderParameter_r gl t3 newShader COMPILE_STATUS;
         t4 = t3 @ [GetShaderParameter newShader COMPILE_STATUS status]
     in if \<not> status then
          (let t5 = t4 @ [DeleteShader newShader];
               infoLog = getShaderInfoLog_r gl t5 newShader;
               t6 = t5 @ [GetShaderInfoLog newShader infoLog]
           in (Inl (Error (''ERROR compiling ''
                      @ (if shaderType = VERTEX_SHADER then ''vertex'' else ''fragment'')
                      @ '' shader: '' @ to_string infoLog)), t6))
        else (Inr newShader, t4))"

section \<open>makeProgram\<close>

text \<open>\<open>validate\<close> is an optional parameter: \<open>None\<close> is an omitted argument, default \<^verbatim>\<open>true\<close>.\<close>

definition makeProgram ::
  "gl_context \<Rightarrow> gl_call list \<Rightarrow> handle \<Rightarrow> handle \<Rightarrow> bool option
     \<Rightarrow> (js_error + handle) \<times> gl_call list" where
  "makeProgram gl t vertexShader fragmentShader validate_opt =
    (let validate = (case validate_opt of None \<Rightarrow> True | Some v \<Rightarrow> v);
         program = createProgram_r gl t;
         t1 = t @ [CreateProgram program];
         t2 = t1 @ [AttachShader program vertexShader];
         t3 = t2 @ [AttachShader program fragmentShader];
         t4 = t3 @ [LinkProgram program];
         linked = getProgramParameter_r gl t4 program LINK_STATUS;
         t5 = t4 @ [GetProgramParameter program LINK_STATUS linked]
     in if \<not> linked then
          (let infoLog = getProgramInfoLog_r gl t5 program;
               t6 = t5 @ [GetProgramInfoLog program infoLog]
           in (Inl (Error (''ERROR linking program: '' @ to_string infoLog)), t6))
        else if validate then
          (let t6 = t5 @ [ValidateProgram program];
               valid = getProgramParameter_r gl t6 program VALIDATE_STATUS;
               t7 = t6 @ [GetProgramParameter program VALIDATE_STATUS valid]
           in if \<not> valid then
                (let infoLog = getProgramInfoLog_r gl t7 program;
                     t8 = t7 @ [GetProgramInfoLog program infoLog]
                 in (Inl (Error (''ERROR validating program: '' @ to_string infoLog)), t8))
              else (Inr program, t7))
        else (Inr program, t5))"

section \<open>makeProgramFromScripts\<close>

text \<open>
  The document is not part of the repository either. The source asks it one thing,
  \<^verbatim>\<open>document.querySelector(selector)\<close>, and the document is modelled as its answer to
  every selector string: the string is not a valid selector and the call throws, or no
  element matches and the call returns \<^verbatim>\<open>null\<close>, or the first matching element is
  returned, of which the source reads the text content.
\<close>

datatype selected = Invalid | Null | Element string

type_synonym document = "string \<Rightarrow> selected"

text \<open>
  The selector is the template literal \<^verbatim>\<open>`#${shaderIds[i]}`\<close>. \<^verbatim>\<open>shaderIds[i]\<close> beyond the
  end of the array is \<^verbatim>\<open>undefined\<close>, which the literal renders as the text
  \<^verbatim>\<open>undefined\<close>. Reading \<^verbatim>\<open>.textContent\<close> of \<^verbatim>\<open>null\<close> raises a \<^verbatim>\<open>TypeError\<close>.
\<close>

definition id_at :: "string list \<Rightarrow> nat \<Rightarrow> string" where
  "id_at shaderIds i = (if i < length shaderIds then shaderIds ! i else ''undefined'')"

definition selector :: "string list \<Rightarrow> nat \<Rightarrow> string" where
  "selector shaderIds i = ''#'' @ id_at shaderIds i"

definition makeProgramFromScripts ::
  "gl_context \<Rightarrow> document \<Rightarrow> gl_call list \<Rightarrow> string list
     \<Rightarrow> (js_error + handle) \<times> gl_call list" where
  "makeProgramFromScripts gl doc t shaderIds =
    (case doc (selector shaderIds 0) of
       Invalid \<Rightarrow> (Inl SyntaxError, t)
     | Null \<Rightarrow> (Inl TypeError, t)
     | Element vertexText \<Rightarrow>
        (case makeShader gl t vertexText VERTEX_SHADER of
           (Inl e, t1) \<Rightarrow> (Inl e, t1)
         | (Inr vertexShader, t1) \<Rightarrow>
            (case doc (selector shaderIds 1) of
               Invalid \<Rightarrow> (Inl SyntaxError, t1)
             | Null \<Rightarrow> (Inl TypeError, t1)
             | Element fragmentText \<Rightarrow>
                (case makeShader gl t1 fragmentText FRAGMENT_SHADER of
                   (Inl e, t2) \<Rightarrow> (Inl e, t2)
                 | (Inr fragmentShader, t2) \<Rightarrow>
                     makeProgram gl t2 vertexShader fragmentShader None))))"

section \<open>createAttribute\<close>

record attribute =
  name :: string
  size_a :: int
  stride :: int
  offset :: int
  type_a :: glenum
  normalized :: bool

text \<open>
  The numeric arguments are counts of elements and of bytes. They are modelled as the
  integers a JavaScript number holds exactly (\<^verbatim>\<open>Number.isSafeInteger\<close>): magnitude at
  most 2^53 - 1. \<open>safe\<close> writes one down (an integer outside the range is
  not a value of the type; \<open>safe\<close> maps it to 0), \<open>int_of\<close> reads it.
\<close>

typedef safe_int = "{n :: int. \<bar>n\<bar> \<le> 9007199254740991}"
  by (rule exI [of _ 0]) simp

setup_lifting type_definition_safe_int

lift_definition safe :: "int \<Rightarrow> safe_int" is
  "\<lambda>n. if \<bar>n\<bar> \<le> 9007199254740991 then n else 0"
  by simp

lift_definition int_of :: "safe_int \<Rightarrow> int" is "\<lambda>n. n" .

text \<open>
  The \<^verbatim>\<open>*\<close> of the source multiplies two doubles: the result is the double nearest to
  the exact product, the one with the even significand when two are equally near. For
  an integer \<open>n\<close> within the range of the finite doubles, \<open>to_double n\<close> is that
  double: \<open>n\<close> itself up to 2^53, and beyond it the nearest multiple of the power of
  two that leaves 53 significant bits. A product of two safe integers is below 2^106,
  far from the largest double, so no product here overflows.
\<close>

fun bit_length :: "nat \<Rightarrow> nat" where
  "bit_length n = (if n = 0 then 0 else Suc (bit_length (n div 2)))"

definition to_double :: "int \<Rightarrow> int" where
  "to_double n =
    (if \<bar>n\<bar> \<le> 2 ^ 53 then n
     else (let q = 2 ^ (bit_length (nat \<bar>n\<bar>) - 53);
               k = \<bar>n\<bar> div q;
               r = \<bar>n\<bar> mod q;
               k' = (if 2 * r < q \<or> (2 * r = q \<and> even k) then k else k + 1)
           in sgn n * (k' * q)))"

text \<open>
  The three trailing parameters are optional; \<open>None\<close> is an omitted argument.
  \<^verbatim>\<open>Float32Array.BYTES_PER_ELEMENT\<close> is 4.
\<close>

definition BYTES_PER_ELEMENT :: int where "BYTES_PER_ELEMENT = 4"

definition createAttribute ::
  "string \<Rightarrow> safe_int \<Rightarrow> safe_int \<Rightarrow> glenum \<Rightarrow> safe_int option \<Rightarrow> safe_int option
     \<Rightarrow> bool option \<Rightarrow> attribute" where
  "createAttribute name' numElements numVertex type' offset_opt typeSize_opt normalized_opt =
    (let offset' = (case offset_opt of None \<Rightarrow> 0 | Some v \<Rightarrow> int_of v);
         typeSize = (case typeSize_opt of None \<Rightarrow> BYTES_PER_ELEMENT | Some v \<Rightarrow> int_of v);
         normalized' = (case normalized_opt of None \<Rightarrow> False | Some v \<Rightarrow> v)
     in \<lparr> name = name',
          size_a = int_of numElements,
          stride = to_double (int_of numVertex * typeSize),
          offset = to_double (offset' * typeSize),
          type_a = type',
          normalized = normalized' \<rparr>)"

section \<open>createBuffer\<close>

text \<open>The body of the \<^verbatim>\<open>forEach\<close> callback, run for each descriptor in array order.\<close>

fun forEach_attr ::
  "gl_context \<Rightarrow> handle \<Rightarrow> gl_call list \<Rightarrow> attribute list \<Rightarrow> gl_call list" where
  "forEach_attr gl program t [] = t"
| "forEach_attr gl program t (attr # rest) =
    (let attrLocation = getAttribLocation_r gl t program (name attr);
         t1 = t @ [GetAttribLocation program (name attr) attrLocation];
         t2 = t1 @ [VertexAttribPointer attrLocation (size_a attr) (type_a attr)
                      (normalized attr) (stride attr) (offset attr)];
         t3 = t2 @ [EnableVertexAttribArray attrLocation]
     in forEach_attr gl program t3 rest)"

text \<open>
  \<open>bufferData\<close> is \<open>None\<close> for \<^verbatim>\<open>null\<close>. The function returns nothing and has no
  \<^verbatim>\<open>throw\<close>: its result is the extended call list.
\<close>

definition createBuffer ::
  "gl_context \<Rightarrow> gl_call list \<Rightarrow> handle \<Rightarrow> real list option \<Rightarrow> attribute list
     \<Rightarrow> glenum option \<Rightarrow> glenum option \<Rightarrow> gl_call list" where
  "createBuffer gl t program bufferData attributes type_opt bufferDataType_opt =
    (let type' = (case type_opt of None \<Rightarrow> ARRAY_BUFFER | Some v \<Rightarrow> v);
         bufferDataType = (case bufferDataType_opt of None \<Rightarrow> STATIC_DRAW | Some v \<Rightarrow> v);
         buffer = createBuffer_r gl t;
         t1 = t @ [CreateBuffer buffer];
         t2 = t1 @ [BindBuffer type' buffer];
         t3 = t2 @ [BufferData type' bufferData bufferDataType]
     in forEach_attr gl program t3 attributes)"

section \<open>clearCanvas\<close>

text \<open>
  A colour is a JavaScript object: a lookup from property names to numbers. Reading a
  property the object lacks gives \<^verbatim>\<open>undefined\<close>.
\<close>

type_synonym js_object = "string \<rightharpoonup> real"

definition get_prop :: "js_object \<Rightarrow> string \<Rightarrow> jsval" where
  "get_prop obj k = (case obj k of None \<Rightarrow> Undefined | Some v \<Rightarrow> Number v)"

definition clearCanvas :: "gl_call list \<Rightarrow> js_object \<Rightarrow> gl_call list" where
  "clearCanvas t color =
    (let t1 = t @ [ClearColor (get_prop color ''r'') (get_prop color ''g'')
                              (get_prop color ''b'') (get_prop color ''a'')]
     in t1 @ [Clear COLOR_BUFFER_BIT])"

section \<open>drawCanvas\<close>

text \<open>
  All parameters after \<^verbatim>\<open>gl\<close> are optional; \<open>None\<close> is an omitted argument and takes
  the default of the source (for \<open>bufferData\<close> the default is \<^verbatim>\<open>null\<close>, which is
  \<open>None\<close> as well).
\<close>

definition default_shaderIds :: "string list" where
  "default_shaderIds = [''vertexShader'', ''fragmentShader'']"

definition default_clearColor :: js_object where
  "default_clearColor = [''r'' \<mapsto> 0, ''g'' \<mapsto> 0, ''b'' \<mapsto> 0, ''a'' \<mapsto> 0]"

definition drawCanvas ::
  "gl_context \<Rightarrow> document \<Rightarrow> gl_call list \<Rightarrow> real list option \<Rightarrow> attribute list option
     \<Rightarrow> string list option \<Rightarrow> js_object option \<Rightarrow> (js_error + unit) \<times> gl_call list" where
  "drawCanvas gl doc t bufferData attributes_opt shaderIds_opt clearColor_opt =
    (let attributes = (case attributes_opt of None \<Rightarrow> [] | Some v \<Rightarrow> v);
         shaderIds = (case shaderIds_opt of None \<Rightarrow> default_shaderIds | Some v \<Rightarrow> v);
         clearColor = (case clearColor_opt of None \<Rightarrow> default_clearColor | Some v \<Rightarrow> v)
     in case makeProgramFromScripts gl doc t shaderIds of
          (Inl e, t1) \<Rightarrow> (Inl e, t1)
        | (Inr program, t1) \<Rightarrow>
           (let t2 = createBuffer gl t1 program bufferData attributes None None;
                t3 = t2 @ [Viewport 0 0 (canvas_width gl) (canvas_height gl)];
                t4 = clearCanvas t3 clearColor;
                t5 = t4 @ [UseProgram program];
                t6 = t5 @ [DrawArrays TRIANGLE_STRIP 0 4]
            in (Inr (), t6)))"

section \<open>Observing the call list\<close>

text \<open>
  The calls of program building, of buffer upload and attribute set-up, and the calls
  that release a resource.
\<close>

fun is_build :: "gl_call \<Rightarrow> bool" where
  "is_build (CreateShader _ _) = True"
| "is_build (ShaderSource _ _) = True"
| "is_build (CompileShader _) = True"
| "is_build (GetShaderParameter _ _ _) = True"
| "is_build (DeleteShader _) = True"
| "is_build (GetShaderInfoLog _ _) = True"
| "is_build (CreateProgram _) = True"
| "is_build (AttachShader _ _) = True"
| "is_build (LinkProgram _) = True"
| "is_build (GetProgramParameter _ _ _) = True"
| "is_build (ValidateProgram _) = True"
| "is_build (GetProgramInfoLog _ _) = True"
| "is_build _ = False"

fun is_upload :: "gl_call \<Rightarrow> bool" where
  "is_upload (CreateBuffer _) = True"
| "is_upload (BindBuffer _ _) = True"
| "is_upload (BufferData _ _ _) = True"
| "is_upload (GetAttribLocation _ _ _) = True"
| "is_upload (VertexAttribPointer _ _ _ _ _ _) = True"
| "is_upload (EnableVertexAttribArray _) = True"
| "is_upload _ = False"

fun is_release :: "gl_call \<Rightarrow> bool" where
  "is_release (DeleteShader _) = True"
| "is_release (DeleteProgram _) = True"
| "is_release (DeleteBuffer _) = True"
| "is_release _ = False"

fun is_validation :: "gl_call \<Rightarrow> bool" where
  "is_validation (ValidateProgram _) = True"
| "is_validation (GetProgramParameter _ p _) = (p = VALIDATE_STATUS)"
| "is_validation _ = False"

text \<open>
  A resource-count probe: the shader handles created and not yet deleted, newest first,
  after the calls of the list (oldest first) have run on the handles \<open>live\<close>.
\<close>

fun live_shaders :: "gl_call list \<Rightarrow> handle list \<Rightarrow> handle list" where
  "live_shaders [] live = live"
| "live_shaders (CreateShader _ h # t) live = live_shaders t (h # live)"
| "live_shaders (DeleteShader h # t) live = live_shaders t (remove1 h live)"
| "live_shaders (_ # t) live = live_shaders t live"

text \<open>The attribute set-up a descriptor asks for, and what a call list carries out.\<close>

definition layout :: "attribute \<Rightarrow> int \<times> glenum \<times> bool \<times> int \<times> int" where
  "layout a = (size_a a, type_a a, normalized a, stride a, offset a)"

fun configured :: "gl_call list \<Rightarrow> (int \<times> int \<times> glenum \<times> bool \<times> int \<times> int) list" where
  "configured [] = []"
| "configured (VertexAttribPointer loc sz ty nrm str off # t) =
     (loc, sz, ty, nrm, str, off) # configured t"
| "configured (_ # t) = configured t"

fun enabled :: "gl_call list \<Rightarrow> int list" where
  "enabled [] = []"
| "enabled (EnableVertexAttribArray loc # t) = loc # enabled t"
| "enabled (_ # t) = enabled t"

fun located :: "gl_call list \<Rightarrow> (string \<times> int) list" where
  "located [] = []"
| "located (GetAttribLocation _ n loc # t) = (n, loc) # located t"
| "located (_ # t) = located t"

section \<open>What the context reports to a run\<close>

text \<open>
  The status answers a run of \<open>makeShader\<close> or \<open>makeProgram\<close> receives, named so that
  statements can speak of them: the calls made up to the status query, and the answer
  of the context at that point.
\<close>

definition compile_calls :: "glenum \<Rightarrow> handle \<Rightarrow> string \<Rightarrow> gl_call list" where
  "compile_calls k h src = [CreateShader k h, ShaderSource h src, CompileShader h]"

definition compile_status :: "gl_context \<Rightarrow> gl_call list \<Rightarrow> string \<Rightarrow> glenum \<Rightarrow> bool" where
  "compile_status gl t src k =
     getShaderParameter_r gl (t @ compile_calls k (createShader_r gl t k) src)
       (createShader_r gl t k) COMPILE_STATUS"

definition link_calls :: "handle \<Rightarrow> handle \<Rightarrow> handle \<Rightarrow> gl_call list" where
  "link_calls p vs fs = [CreateProgram p, AttachShader p vs, AttachShader p fs, LinkProgram p]"

definition link_status :: "gl_context \<Rightarrow> gl_call list \<Rightarrow> handle \<Rightarrow> handle \<Rightarrow> bool" where
  "link_status gl t vs fs =
     getProgramParameter_r gl (t @ link_calls (createProgram_r gl t) vs fs)
       (createProgram_r gl t) LINK_STATUS"

definition validate_calls :: "handle \<Rightarrow> handle \<Rightarrow> handle \<Rightarrow> gl_call list" where
  "validate_calls p vs fs =
     link_calls p vs fs @ [GetProgramParameter p LINK_STATUS True, ValidateProgram p]"

definition validate_status :: "gl_context \<Rightarrow> gl_call list \<Rightarrow> handle \<Rightarrow> handle \<Rightarrow> bool" where
  "validate_status gl t vs fs =
     getProgramParameter_r gl (t @ validate_calls (createProgram_r gl t) vs fs)
       (createProgram_r gl t) VALIDATE_STATUS"

definition buffer_calls :: "handle \<Rightarrow> glenum \<Rightarrow> real list option \<Rightarrow> glenum \<Rightarrow> gl_call list" where
  "buffer_calls b ty bufferData usage =
     [CreateBuffer b, BindBuffer ty b, BufferData ty bufferData usage]"

text \<open>
  The three calls one descriptor causes once its location is known, and the locations
  the context returns, descriptor by descriptor, to the loop started after the calls \<open>t\<close>.
\<close>

definition attr_setup :: "handle \<Rightarrow> attribute \<Rightarrow> int \<Rightarrow> gl_call list" where
  "attr_setup p a loc =
     [GetAttribLocation p (name a) loc,
      VertexAttribPointer loc (size_a a) (type_a a) (normalized a) (stride a) (offset a),
      EnableVertexAttribArray loc]"

fun locations :: "gl_context \<Rightarrow> handle \<Rightarrow> gl_call list \<Rightarrow> attribute list \<Rightarrow> int list" where
  "locations gl p t [] = []"
| "locations gl p t (a # rest) =
     getAttribLocation_r gl t p (name a)
       # locations gl p (t @ attr_setup p a (getAttribLocation_r gl t p (name a))) rest"

text \<open>The calls made when the attribute loop of \<open>createBuffer\<close> starts.\<close>

definition upload_start ::
  "gl_context \<Rightarrow> gl_call list \<Rightarrow> real list option \<Rightarrow> glenum option \<Rightarrow> glenum option
     \<Rightarrow> gl_call list" where
  "upload_start gl t bufferData ty usage =
     t @ buffer_calls (createBuffer_r gl t) (case ty of None \<Rightarrow> ARRAY_BUFFER | Some v \<Rightarrow> v)
           bufferData (case usage of None \<Rightarrow> STATIC_DRAW | Some v \<Rightarrow> v)"

fun is_draw :: "gl_call \<Rightarrow> bool" where
  "is_draw (DrawArrays _ _ _) = True"
| "is_draw _ = False"

text \<open>
  A context gives a run its answers: \<open>answers_as gl t es\<close> says that the context \<open>gl\<close>,
  having received the calls \<open>t\<close>, answers every query among the calls \<open>es\<close> with the
  value recorded there, each at the point of the run where it is asked.
\<close>

fun answer_ok :: "gl_context \<Rightarrow> gl_call list \<Rightarrow> gl_call \<Rightarrow> bool" where
  "answer_ok gl t (CreateShader k h) = (createShader_r gl t k = h)"
| "answer_ok gl t (GetShaderParameter h q b) = (getShaderParameter_r gl t h q = b)"
| "answer_ok gl t (GetShaderInfoLog h lg) = (getShaderInfoLog_r gl t h = lg)"
| "answer_ok gl t (CreateProgram h) = (createProgram_r gl t = h)"
| "answer_ok gl t (GetProgramParameter h q b) = (getProgramParameter_r gl t h q = b)"
| "answer_ok gl t (GetProgramInfoLog h lg) = (getProgramInfoLog_r gl t h = lg)"
| "answer_ok gl t (CreateBuffer h) = (createBuffer_r gl t = h)"
| "answer_ok gl t (GetAttribLocation p n loc) = (getAttribLocation_r gl t p n = loc)"
| "answer_ok gl t _ = True"

fun answers_as :: "gl_context \<Rightarrow> gl_call list \<Rightarrow> gl_call list \<Rightarrow> bool" where
  "answers_as gl t [] = True"
| "answers_as gl t (e # es) = (answer_ok gl t e \<and> answers_as gl (t @ [e]) es)"

text \<open>
  A release that is the clean-up of a failed compilation: \<open>deleteShader\<close> on a handle
  whose compile status was reported unsuccessful among the calls \<open>es\<close>.
\<close>

fun release_ok :: "gl_call list \<Rightarrow> gl_call \<Rightarrow> bool" where
  "release_ok es (DeleteShader h) = (GetShaderParameter h COMPILE_STATUS False \<in> set es)"
| "release_ok es (DeleteProgram _) = False"
| "release_ok es (DeleteBuffer _) = False"
| "release_ok es _ = True"

section \<open>A context to evaluate on\<close>

text \<open>
  A concrete context, for running the functions above on inputs. It is driven by four
  tables: the diagnostic the compiler gives for a source text (\<open>None\<close> when the text
  compiles), the diagnostics of linking and of validation, and the attribute locations
  (-1 for a name the program does not have). Handles are fresh. As WebGL 1.0 has it
  (section 5.14.9 with OpenGL ES 2.0 section 2.10.1), a shader that is deleted while
  attached to no program is gone at once, and a query that names it afterwards
  returns \<^verbatim>\<open>null\<close>.
\<close>

fun source_of :: "gl_call list \<Rightarrow> handle \<Rightarrow> string option" where
  "source_of [] h = None"
| "source_of (ShaderSource h' s # t) h =
     (case source_of t h of Some s' \<Rightarrow> Some s' | None \<Rightarrow> if h' = h then Some s else None)"
| "source_of (_ # t) h = source_of t h"

definition mock_gl ::
  "(string \<Rightarrow> string option) \<Rightarrow> string option \<Rightarrow> string option \<Rightarrow> (string \<Rightarrow> int)
     \<Rightarrow> int \<Rightarrow> int \<Rightarrow> gl_context" where
  "mock_gl compile_diag link_diag validate_diag locate w h =
    \<lparr> createShader_r = (\<lambda>t ty. Suc (length t)),
      getShaderParameter_r = (\<lambda>t s p.
         p = COMPILE_STATUS \<and> DeleteShader s \<notin> set t \<and> CompileShader s \<in> set t
         \<and> (case source_of t s of None \<Rightarrow> False | Some src \<Rightarrow> compile_diag src = None)),
      getShaderInfoLog_r = (\<lambda>t s.
         if DeleteShader s \<in> set t then None
         else (case source_of t s of
                 None \<Rightarrow> Some []
               | Some src \<Rightarrow> (case compile_diag src of None \<Rightarrow> Some [] | Some d \<Rightarrow> Some d))),
      createProgram_r = (\<lambda>t. Suc (length t)),
      getProgramParameter_r = (\<lambda>t p q.
         if q = LINK_STATUS then link_diag = None
         else if q = VALIDATE_STATUS then validate_diag = None
         else False),
      getProgramInfoLog_r = (\<lambda>t p.
         if ValidateProgram p \<in> set t then validate_diag else link_diag),
      createBuffer_r = (\<lambda>t. Suc (length t)),
      getAttribLocation_r = (\<lambda>t p n. locate n),
      canvas_width = w,
      canvas_height = h \<rparr>"

text \<open>A driver that compiles every text but \<^verbatim>\<open>bad\<close>, and knows the attribute \<^verbatim>\<open>pos\<close>.\<close>

definition reject_bad :: "string \<Rightarrow> string option" where
  "reject_bad src = (if src = ''bad'' then Some ''0:1: syntax error'' else None)"

definition only_pos :: "string \<Rightarrow> int" where
  "only_pos n = (if n = ''pos'' then 0 else - 1)"

definition test_gl :: gl_context where
  "test_gl = mock_gl reject_bad None None only_pos 300 150"

text \<open>
  The answers of a document with three script elements to the selectors used below;
  \<^verbatim>\<open>#1st\<close> is not a selector, an identifier cannot start with a digit.
\<close>

definition test_doc :: document where
  "test_doc sel =
     (if sel = ''#vertexShader'' then Element ''void main() {}''
      else if sel = ''#fragmentShader'' then Element ''void main() { }''
      else if sel = ''#broken'' then Element ''bad''
      else if sel = ''#1st'' then Invalid
      else Null)"

text \<open>Two descriptors of one interleaved buffer; the program of \<open>test_gl\<close> lacks the second.\<close>

definition two_attrs :: "attribute list" where
  "two_attrs = [createAttribute ''pos'' (safe 2) (safe 4) FLOAT None None None,
                createAttribute ''uv'' (safe 2) (safe 4) FLOAT (Some (safe 2)) None None]"

text \<open>
  Contexts whose linker, or whose validator, rejects every program, and the calls that
  compiled two shaders (handles 1 and 5) before a program is made of them.
\<close>

definition nolink_gl :: gl_context where
  "nolink_gl = mock_gl reject_bad (Some ''link failed'') None only_pos 300 150"

definition novalidate_gl :: gl_context where
  "novalidate_gl = mock_gl reject_bad None (Some ''validation failed'') only_pos 300 150"

definition two_shaders :: "gl_call list" where
  "two_shaders =
     [CreateShader VERTEX_SHADER 1, ShaderSource 1 ''void main() {}'', CompileShader 1,
      GetShaderParameter 1 COMPILE_STATUS True,
      CreateShader FRAGMENT_SHADER 5, ShaderSource 5 ''void main() { }'', CompileShader 5,
      GetShaderParameter 5 COMPILE_STATUS True]"

text \<open>
  The frame of the specification's end-to-end example: a quad as a triangle strip, one
  two-component position attribute, opaque red as the clear colour.
\<close>

definition quad :: "real list" where
  "quad = [- 1, - 1, 1, - 1, - 1, 1, 1, 1]"

definition pos_attr :: attribute where
  "pos_attr = createAttribute ''pos'' (safe 2) (safe 2) FLOAT None None None"

definition red :: js_object where
  "red = [''r'' \<mapsto> 1, ''g'' \<mapsto> 0, ''b'' \<mapsto> 0, ''a'' \<mapsto> 1]"

definition test_program :: "gl_call list" where
  "test_program =
     two_shaders @
     [CreateProgram 9, AttachShader 9 1, AttachShader 9 5, LinkProgram 9,
      GetProgramParameter 9 LINK_STATUS True, ValidateProgram 9,
      GetProgramParameter 9 VALIDATE_STATUS True]"

text \<open>
  The calls of the example frame, and a second context: it differs from \<open>test_gl\<close> in
  its info logs and in the location of every attribute but \<^verbatim>\<open>pos\<close>, none of which the
  example frame asks for.
\<close>

definition test_frame :: "gl_call list" where
  "test_frame =
     test_program @
     [CreateBuffer 16, BindBuffer ARRAY_BUFFER 16,
      BufferData ARRAY_BUFFER (Some quad) STATIC_DRAW,
      GetAttribLocation 9 ''pos'' 0, VertexAttribPointer 0 2 FLOAT False 8 0,
      EnableVertexAttribArray 0,
      Viewport 0 0 300 150,
      ClearColor (Number 1) (Number 0) (Number 0) (Number 1),
      Clear COLOR_BUFFER_BIT,
      UseProgram 9,
      DrawArrays TRIANGLE_STRIP 0 4]"

definition other_gl :: gl_context where
  "other_gl = test_gl \<lparr> getShaderInfoLog_r := (\<lambda>t h. Some ''no log kept''),
                         getProgramInfoLog_r := (\<lambda>t h. Some ''no log kept''),
                         getAttribLocation_r := (\<lambda>t p n. if n = ''pos'' then 0 else 7) \<rparr>"

text \<open>
  The calls of a compilation that fails on \<open>test_gl\<close>, and a colour object written with
  the property names of the \<^verbatim>\<open>ColorObject\<close> typedef of the source's documentation.
\<close>

definition failed_compile :: "glenum \<Rightarrow> handle \<Rightarrow> gl_call list" where
  "failed_compile k h =
     [CreateShader k h, ShaderSource h ''bad'', CompileShader h,
      GetShaderParameter h COMPILE_STATUS False, DeleteShader h, GetShaderInfoLog h None]"

definition documented_red :: js_object where
  "documented_red = [''red'' \<mapsto> 1, ''green'' \<mapsto> 0, ''blue'' \<mapsto> 0, ''alpha'' \<mapsto> 1]"

section \<open>Each function, call by call\<close>


lemma int_of_safe: "\<bar>n\<bar> \<le> 9007199254740991 \<Longrightarrow> int_of (safe n) = n"
  by transfer simp

lemma to_double_exact: "\<bar>n\<bar> \<le> 2 ^ 53 \<Longrightarrow> to_double n = n"
  by (simp add: to_double_def)

lemma live_shaders_append:
  "live_shaders (t @ es) live = live_shaders es (live_shaders t live)"
  by (induction t live rule: live_shaders.induct) simp_all

lemma makeShader_ok:
  assumes "compile_status gl t src k"
  shows "makeShader gl t src k =
           (Inr (createShader_r gl t k),
            t @ compile_calls k (createShader_r gl t k) src
              @ [GetShaderParameter (createShader_r gl t k) COMPILE_STATUS True])"
  using assms by (simp add: makeShader_def compile_status_def compile_calls_def Let_def)

lemma makeShader_fail:
  assumes "\<not> compile_status gl t src k"
  shows "makeShader gl t src k =
           (Inl (Error (''ERROR compiling ''
                   @ (if k = VERTEX_SHADER then ''vertex'' else ''fragment'') @ '' shader: ''
                   @ to_string (getShaderInfoLog_r gl
                       (t @ compile_calls k (createShader_r gl t k) src
                          @ [GetShaderParameter (createShader_r gl t k) COMPILE_STATUS False,
                             DeleteShader (createShader_r gl t k)])
                       (createShader_r gl t k)))),
            t @ compile_calls k (createShader_r gl t k) src
              @ [GetShaderParameter (createShader_r gl t k) COMPILE_STATUS False,
                 DeleteShader (createShader_r gl t k),
                 GetShaderInfoLog (createShader_r gl t k)
                   (getShaderInfoLog_r gl
                       (t @ compile_calls k (createShader_r gl t k) src
                          @ [GetShaderParameter (createShader_r gl t k) COMPILE_STATUS False,
                             DeleteShader (createShader_r gl t k)])
                       (createShader_r gl t k))])"
  using assms by (simp add: makeShader_def compile_status_def compile_calls_def Let_def)

lemma makeShader_extends:
  "\<exists>es. snd (makeShader gl t src k) = t @ es \<and> list_all is_build es
        \<and> list_all (release_ok es) es
        \<and> (\<forall>h. fst (makeShader gl t src k) = Inr h \<longrightarrow> \<not> list_ex is_release es)"
  by (cases "compile_status gl t src k")
     (simp_all add: makeShader_ok makeShader_fail compile_calls_def)

lemma makeProgram_link_fail:
  assumes "\<not> link_status gl t vs fs"
  shows "makeProgram gl t vs fs v =
           (Inl (Error (''ERROR linking program: ''
                   @ to_string (getProgramInfoLog_r gl
                       (t @ link_calls (createProgram_r gl t) vs fs
                          @ [GetProgramParameter (createProgram_r gl t) LINK_STATUS False])
                       (createProgram_r gl t)))),
            t @ link_calls (createProgram_r gl t) vs fs
              @ [GetProgramParameter (createProgram_r gl t) LINK_STATUS False,
                 GetProgramInfoLog (createProgram_r gl t)
                   (getProgramInfoLog_r gl
                       (t @ link_calls (createProgram_r gl t) vs fs
                          @ [GetProgramParameter (createProgram_r gl t) LINK_STATUS False])
                       (createProgram_r gl t))])"
  using assms by (simp add: makeProgram_def link_status_def link_calls_def Let_def)

lemma makeProgram_unvalidated:
  assumes "link_status gl t vs fs"
  shows "makeProgram gl t vs fs (Some False) =
           (Inr (createProgram_r gl t),
            t @ link_calls (createProgram_r gl t) vs fs
              @ [GetProgramParameter (createProgram_r gl t) LINK_STATUS True])"
  using assms by (simp add: makeProgram_def link_status_def link_calls_def Let_def)

lemma makeProgram_validate_fail:
  assumes "link_status gl t vs fs" "v \<noteq> Some False" "\<not> validate_status gl t vs fs"
  shows "makeProgram gl t vs fs v =
           (Inl (Error (''ERROR validating program: ''
                   @ to_string (getProgramInfoLog_r gl
                       (t @ validate_calls (createProgram_r gl t) vs fs
                          @ [GetProgramParameter (createProgram_r gl t) VALIDATE_STATUS False])
                       (createProgram_r gl t)))),
            t @ validate_calls (createProgram_r gl t) vs fs
              @ [GetProgramParameter (createProgram_r gl t) VALIDATE_STATUS False,
                 GetProgramInfoLog (createProgram_r gl t)
                   (getProgramInfoLog_r gl
                       (t @ validate_calls (createProgram_r gl t) vs fs
                          @ [GetProgramParameter (createProgram_r gl t) VALIDATE_STATUS False])
                       (createProgram_r gl t))])"
  using assms
  by (cases v)
     (simp_all add: makeProgram_def link_status_def validate_status_def link_calls_def
        validate_calls_def Let_def)

lemma makeProgram_validated:
  assumes "link_status gl t vs fs" "v \<noteq> Some False" "validate_status gl t vs fs"
  shows "makeProgram gl t vs fs v =
           (Inr (createProgram_r gl t),
            t @ validate_calls (createProgram_r gl t) vs fs
              @ [GetProgramParameter (createProgram_r gl t) VALIDATE_STATUS True])"
  using assms
  by (cases v)
     (simp_all add: makeProgram_def link_status_def validate_status_def link_calls_def
        validate_calls_def Let_def)

lemma makeProgram_extends:
  "\<exists>es. snd (makeProgram gl t vs fs v) = t @ es \<and> list_all is_build es
        \<and> \<not> list_ex is_release es"
proof (cases "link_status gl t vs fs")
  case False
  then show ?thesis by (simp add: makeProgram_link_fail link_calls_def)
next
  case True
  show ?thesis
  proof (cases "v = Some False")
    case True
    with \<open>link_status gl t vs fs\<close> show ?thesis
      by (simp add: makeProgram_unvalidated link_calls_def)
  next
    case False
    with \<open>link_status gl t vs fs\<close> show ?thesis
      by (cases "validate_status gl t vs fs")
         (simp_all add: makeProgram_validated makeProgram_validate_fail validate_calls_def
            link_calls_def)
  qed
qed


lemma release_ok_mono: "release_ok es e \<Longrightarrow> set es \<subseteq> set es' \<Longrightarrow> release_ok es' e"
  by (cases e) auto

lemma list_all_release_ok_mono:
  "list_all (release_ok es) xs \<Longrightarrow> set es \<subseteq> set es' \<Longrightarrow> list_all (release_ok es') xs"
  by (induction xs) (auto intro: release_ok_mono)

lemma no_release_release_ok: "\<not> list_ex is_release xs \<Longrightarrow> list_all (release_ok es) xs"
proof (induction xs)
  case Nil
  then show ?case by simp
next
  case (Cons e xs)
  then show ?case by (cases e) simp_all
qed

lemma makeProgramFromScripts_extends:
  "\<exists>es. snd (makeProgramFromScripts gl doc t ids) = t @ es \<and> list_all is_build es
        \<and> list_all (release_ok es) es
        \<and> (\<forall>p. fst (makeProgramFromScripts gl doc t ids) = Inr p \<longrightarrow> \<not> list_ex is_release es)"
proof (cases "doc (selector ids 0)")
  case Invalid
  then show ?thesis by (simp add: makeProgramFromScripts_def)
next
  case Null
  then show ?thesis by (simp add: makeProgramFromScripts_def)
next
  case (Element vtxt)
  note v = this
  obtain r1 t1 where m1: "makeShader gl t vtxt VERTEX_SHADER = (r1, t1)"
    by fastforce
  obtain es1 where e1: "t1 = t @ es1" "list_all is_build es1" "list_all (release_ok es1) es1"
      "\<forall>h. r1 = Inr h \<longrightarrow> \<not> list_ex is_release es1"
    using makeShader_extends [of gl t vtxt VERTEX_SHADER] m1 by auto
  show ?thesis
  proof (cases r1)
    case (Inl e)
    with v m1 e1 show ?thesis by (simp add: makeProgramFromScripts_def)
  next
    case (Inr vs)
    note r1 = this
    show ?thesis
    proof (cases "doc (selector ids 1)")
      case Invalid
      with v m1 e1 r1 show ?thesis by (simp add: makeProgramFromScripts_def)
    next
      case Null
      with v m1 e1 r1 show ?thesis by (simp add: makeProgramFromScripts_def)
    next
      case (Element ftxt)
      note f = this
      obtain r2 t2 where m2: "makeShader gl t1 ftxt FRAGMENT_SHADER = (r2, t2)"
        by fastforce
      obtain es2 where e2: "t2 = t1 @ es2" "list_all is_build es2"
          "list_all (release_ok es2) es2" "\<forall>h. r2 = Inr h \<longrightarrow> \<not> list_ex is_release es2"
        using makeShader_extends [of gl t1 ftxt FRAGMENT_SHADER] m2 by auto
      have n1: "\<not> list_ex is_release es1" using e1(4) r1 by simp
      show ?thesis
      proof (cases r2)
        case (Inl e)
        have "list_all (release_ok (es1 @ es2)) (es1 @ es2)"
          using n1 e2(3) by (simp add: no_release_release_ok list_all_release_ok_mono)
        with Inl v f m1 m2 e1 e2 r1 show ?thesis
          by (simp add: makeProgramFromScripts_def)
      next
        case (Inr fs)
        obtain es3 where e3: "snd (makeProgram gl t2 vs fs None) = t2 @ es3"
            "list_all is_build es3" "\<not> list_ex is_release es3"
          using makeProgram_extends [of gl t2 vs fs None] by auto
        have n2: "\<not> list_ex is_release es2" using e2(4) Inr by simp
        have n: "\<not> list_ex is_release (es1 @ es2 @ es3)"
          using n1 n2 e3(3) by simp
        have "snd (makeProgramFromScripts gl doc t ids) = t @ es1 @ es2 @ es3"
          using Inr v f m1 m2 e1 e2 e3 r1
          by (simp add: makeProgramFromScripts_def)
        moreover have "list_all is_build (es1 @ es2 @ es3)"
          using e1 e2 e3 by simp
        moreover have "list_all (release_ok (es1 @ es2 @ es3)) (es1 @ es2 @ es3)"
          using n by (rule no_release_release_ok)
        ultimately show ?thesis using n by blast
      qed
    qed
  qed
qed

lemma forEach_attr_calls:
  "forEach_attr gl p t attrs = t @ concat (map2 (attr_setup p) attrs (locations gl p t attrs))"
  by (induction attrs arbitrary: t) (simp_all add: Let_def attr_setup_def)

lemma length_locations: "length (locations gl p t attrs) = length attrs"
  by (induction attrs arbitrary: t) simp_all

lemma configured_setups:
  "length locs = length attrs \<Longrightarrow>
   configured (concat (map2 (attr_setup p) attrs locs)) = zip locs (map layout attrs)"
  by (induction attrs locs rule: list_induct2')
     (simp_all add: attr_setup_def layout_def)

lemma enabled_setups:
  "length locs = length attrs \<Longrightarrow> enabled (concat (map2 (attr_setup p) attrs locs)) = locs"
  by (induction attrs locs rule: list_induct2') (simp_all add: attr_setup_def)

lemma located_setups:
  "length locs = length attrs \<Longrightarrow>
   located (concat (map2 (attr_setup p) attrs locs)) = zip (map name attrs) locs"
  by (induction attrs locs rule: list_induct2') (simp_all add: attr_setup_def)

lemma upload_setups:
  "list_all is_upload (concat (map2 (attr_setup p) attrs locs))"
  by (induction attrs locs rule: list_induct2') (simp_all add: attr_setup_def)

lemma no_release_setups:
  "\<not> list_ex is_release (concat (map2 (attr_setup p) attrs locs))"
  by (induction attrs locs rule: list_induct2') (simp_all add: attr_setup_def)

lemma createBuffer_calls:
  "createBuffer gl t p bufferData attrs ty usage =
     upload_start gl t bufferData ty usage
       @ concat (map2 (attr_setup p) attrs
           (locations gl p (upload_start gl t bufferData ty usage) attrs))"
  by (simp add: createBuffer_def Let_def forEach_attr_calls buffer_calls_def upload_start_def)


lemma clearCanvas_calls:
  "clearCanvas t c =
     t @ [ClearColor (get_prop c ''r'') (get_prop c ''g'') (get_prop c ''b'') (get_prop c ''a''),
          Clear COLOR_BUFFER_BIT]"
  by (simp add: clearCanvas_def Let_def)

lemma drawCanvas_ok:
  assumes "makeProgramFromScripts gl doc t
             (case ids_opt of None \<Rightarrow> default_shaderIds | Some v \<Rightarrow> v) = (Inr program, t1)"
  shows "drawCanvas gl doc t bufferData attrs_opt ids_opt color_opt =
           (Inr (),
            createBuffer gl t1 program bufferData
                (case attrs_opt of None \<Rightarrow> [] | Some v \<Rightarrow> v) None None
              @ [Viewport 0 0 (canvas_width gl) (canvas_height gl),
                 ClearColor
                   (get_prop (case color_opt of None \<Rightarrow> default_clearColor | Some v \<Rightarrow> v) ''r'')
                   (get_prop (case color_opt of None \<Rightarrow> default_clearColor | Some v \<Rightarrow> v) ''g'')
                   (get_prop (case color_opt of None \<Rightarrow> default_clearColor | Some v \<Rightarrow> v) ''b'')
                   (get_prop (case color_opt of None \<Rightarrow> default_clearColor | Some v \<Rightarrow> v) ''a''),
                 Clear COLOR_BUFFER_BIT,
                 UseProgram program,
                 DrawArrays TRIANGLE_STRIP 0 4])"
  using assms by (simp add: drawCanvas_def Let_def clearCanvas_calls)

lemma drawCanvas_fail:
  assumes "makeProgramFromScripts gl doc t
             (case ids_opt of None \<Rightarrow> default_shaderIds | Some v \<Rightarrow> v) = (Inl e, t1)"
  shows "drawCanvas gl doc t bufferData attrs_opt ids_opt color_opt = (Inl e, t1)"
  using assms by (simp add: drawCanvas_def Let_def)

lemma createBuffer_extends:
  "\<exists>es. createBuffer gl t p bufferData attrs ty usage = t @ es \<and> list_all is_upload es
        \<and> \<not> list_ex is_release es"
  by (simp add: createBuffer_calls upload_start_def buffer_calls_def upload_setups
        no_release_setups)

lemma drawCanvas_extends:
  "\<exists>es. snd (drawCanvas gl doc t bufferData attrs_opt ids_opt color_opt) = t @ es
        \<and> list_all (release_ok es) es"
proof -
  let ?ids = "case ids_opt of None \<Rightarrow> default_shaderIds | Some v \<Rightarrow> v"
  obtain r t1 where m: "makeProgramFromScripts gl doc t ?ids = (r, t1)"
    by fastforce
  obtain es1 where e1: "t1 = t @ es1" "list_all (release_ok es1) es1"
      "\<forall>p. r = Inr p \<longrightarrow> \<not> list_ex is_release es1"
    using makeProgramFromScripts_extends [of gl doc t ?ids] m by auto
  show ?thesis
  proof (cases r)
    case (Inl e)
    with m e1 show ?thesis by (simp add: drawCanvas_fail)
  next
    case (Inr program)
    obtain es2 where e2: "createBuffer gl t1 program bufferData
          (case attrs_opt of None \<Rightarrow> [] | Some v \<Rightarrow> v) None None = t1 @ es2"
        "\<not> list_ex is_release es2"
      using createBuffer_extends by blast
    let ?tail = "[Viewport 0 0 (canvas_width gl) (canvas_height gl),
                 ClearColor
                   (get_prop (case color_opt of None \<Rightarrow> default_clearColor | Some v \<Rightarrow> v) ''r'')
                   (get_prop (case color_opt of None \<Rightarrow> default_clearColor | Some v \<Rightarrow> v) ''g'')
                   (get_prop (case color_opt of None \<Rightarrow> default_clearColor | Some v \<Rightarrow> v) ''b'')
                   (get_prop (case color_opt of None \<Rightarrow> default_clearColor | Some v \<Rightarrow> v) ''a''),
                 Clear COLOR_BUFFER_BIT,
                 UseProgram program,
                 DrawArrays TRIANGLE_STRIP 0 4]"
    have n: "\<not> list_ex is_release (es1 @ es2 @ ?tail)"
      using e1(3) e2(2) Inr by simp
    have "snd (drawCanvas gl doc t bufferData attrs_opt ids_opt color_opt)
            = t @ es1 @ es2 @ ?tail"
      using m Inr e1(1) e2(1) by (simp add: drawCanvas_ok)
    moreover have "list_all (release_ok (es1 @ es2 @ ?tail)) (es1 @ es2 @ ?tail)"
      using n by (rule no_release_release_ok)
    ultimately show ?thesis by blast
  qed
qed

section \<open>createBuffer: one set-up per descriptor\<close>

text \<open>
  C3. For every list of N attribute descriptors given to \<open>createBuffer\<close>, the calls after
  the buffer upload are exactly N groups, in the order of the list, of a location
  query, a \<^verbatim>\<open>vertexAttribPointer\<close> call and an \<^verbatim>\<open>enableVertexAttribArray\<close> call: N
  locations are configured and N are enabled, the i-th pointer call carries the size,
  type, normalisation flag, stride and offset of the i-th descriptor, and it configures
  the location that is enabled right after it, the one returned for the descriptor's name.
\<close>

theorem createBuffer_configures_in_order:
  "\<exists>es. createBuffer gl t p bufferData attrs ty usage
           = upload_start gl t bufferData ty usage @ es
      \<and> length (configured es) = length attrs
      \<and> length (enabled es) = length attrs
      \<and> map snd (configured es) = map layout attrs
      \<and> map fst (configured es) = enabled es
      \<and> located es = zip (map name attrs) (enabled es)
      \<and> es = concat (map2 (attr_setup p) attrs (enabled es))"
proof -
  let ?locs = "locations gl p (upload_start gl t bufferData ty usage) attrs"
  let ?es = "concat (map2 (attr_setup p) attrs ?locs)"
  have len: "length ?locs = length attrs" by (rule length_locations)
  have "createBuffer gl t p bufferData attrs ty usage
          = upload_start gl t bufferData ty usage @ ?es"
    by (rule createBuffer_calls)
  moreover have "enabled ?es = ?locs" using len by (rule enabled_setups)
  moreover have "configured ?es = zip ?locs (map layout attrs)"
    using len by (rule configured_setups)
  moreover have "located ?es = zip (map name attrs) ?locs"
    using len by (rule located_setups)
  ultimately show ?thesis using len by (intro exI [of _ ?es]) simp
qed

section \<open>createBuffer: a location that is not found\<close>

text \<open>
  C10. \<open>createBuffer\<close> has no failure and skips no descriptor: whatever location \<open>loc\<close>
  the context returns for the name of the i-th descriptor, the not-found sentinel -1
  included, the i-th \<^verbatim>\<open>vertexAttribPointer\<close> call is made with \<open>loc\<close> and the descriptor's
  layout, and the i-th \<^verbatim>\<open>enableVertexAttribArray\<close> call is made with \<open>loc\<close>.
\<close>

theorem createBuffer_passes_location_through:
  assumes "i < length attrs"
    and "locations gl p (upload_start gl t bufferData ty usage) attrs ! i = loc"
  shows "\<exists>es. createBuffer gl t p bufferData attrs ty usage
                 = upload_start gl t bufferData ty usage @ es
      \<and> length (located es) = length attrs
      \<and> length (configured es) = length attrs
      \<and> length (enabled es) = length attrs
      \<and> located es ! i = (name (attrs ! i), loc)
      \<and> configured es ! i = (loc, layout (attrs ! i))
      \<and> enabled es ! i = loc"
proof -
  let ?locs = "locations gl p (upload_start gl t bufferData ty usage) attrs"
  let ?es = "concat (map2 (attr_setup p) attrs ?locs)"
  have len: "length ?locs = length attrs" by (rule length_locations)
  have "createBuffer gl t p bufferData attrs ty usage
          = upload_start gl t bufferData ty usage @ ?es"
    by (rule createBuffer_calls)
  moreover have "enabled ?es = ?locs" using len by (rule enabled_setups)
  moreover have "configured ?es = zip ?locs (map layout attrs)"
    using len by (rule configured_setups)
  moreover have "located ?es = zip (map name attrs) ?locs"
    using len by (rule located_setups)
  ultimately show ?thesis using len assms by (intro exI [of _ ?es]) simp
qed

lemma test_locations:
  "locations test_gl 9 (upload_start test_gl [] None None None) two_attrs = [0, - 1]"
  by (simp add: two_attrs_def test_gl_def mock_gl_def only_pos_def createAttribute_def)

text \<open>The second descriptor of \<open>two_attrs\<close> is not found, and is set up at -1.\<close>

theorem createBuffer_passes_location_through_witness:
  "(1::nat) < length two_attrs
   \<and> locations test_gl 9 (upload_start test_gl [] None None None) two_attrs ! 1 = - 1
   \<and> (\<exists>es. createBuffer test_gl [] 9 None two_attrs None None
                 = upload_start test_gl [] None None None @ es
      \<and> length (located es) = length two_attrs
      \<and> length (configured es) = length two_attrs
      \<and> length (enabled es) = length two_attrs
      \<and> located es ! 1 = (''uv'', - 1)
      \<and> configured es ! 1 = (- 1, 2, FLOAT, False, 16, 8)
      \<and> enabled es ! 1 = - 1)"
proof -
  have i: "(1::nat) < length two_attrs" by (simp add: two_attrs_def)
  have l: "locations test_gl 9 (upload_start test_gl [] None None None) two_attrs ! 1 = - 1"
    by (simp add: test_locations)
  have a: "name (two_attrs ! 1) = ''uv''" "layout (two_attrs ! 1) = (2, FLOAT, False, 16, 8)"
    by (simp_all add: two_attrs_def createAttribute_def layout_def BYTES_PER_ELEMENT_def
          int_of_safe to_double_exact)
  show ?thesis
    using createBuffer_passes_location_through [OF i l] i l a by simp
qed

section \<open>makeProgram: validation switched off\<close>

text \<open>
  C5. For every pair of shader handles, \<open>makeProgram\<close> called with \<^verbatim>\<open>validate = false\<close>
  makes no \<^verbatim>\<open>validateProgram\<close> call and no query of the validation status, whatever
  the context would have answered to them, and it returns the program handle whenever
  the context reports a successful link status.
\<close>

theorem makeProgram_without_validation:
  "\<exists>es. snd (makeProgram gl t vs fs (Some False)) = t @ es
      \<and> \<not> list_ex is_validation es
      \<and> (link_status gl t vs fs
           \<longrightarrow> fst (makeProgram gl t vs fs (Some False)) = Inr (createProgram_r gl t))"
proof (cases "link_status gl t vs fs")
  case True
  then show ?thesis
    by (simp add: makeProgram_unvalidated link_calls_def LINK_STATUS_def VALIDATE_STATUS_def)
next
  case False
  then show ?thesis
    by (simp add: makeProgram_link_fail link_calls_def LINK_STATUS_def VALIDATE_STATUS_def)
qed

text \<open>On a context whose validator rejects every program, the handle is returned.\<close>

lemma novalidate_status:
  "link_status novalidate_gl two_shaders 1 5" "\<not> validate_status novalidate_gl two_shaders 1 5"
  by (simp_all add: link_status_def validate_status_def novalidate_gl_def mock_gl_def
        LINK_STATUS_def VALIDATE_STATUS_def)

lemma novalidate_handle: "createProgram_r novalidate_gl two_shaders = 9"
  by (simp add: novalidate_gl_def mock_gl_def two_shaders_def)

theorem makeProgram_without_validation_witness:
  "link_status novalidate_gl two_shaders 1 5
   \<and> \<not> validate_status novalidate_gl two_shaders 1 5
   \<and> fst (makeProgram novalidate_gl two_shaders 1 5 (Some False)) = Inr 9
   \<and> (\<exists>es. snd (makeProgram novalidate_gl two_shaders 1 5 (Some False)) = two_shaders @ es
          \<and> \<not> list_ex is_validation es)"
  using makeProgram_without_validation [of novalidate_gl two_shaders 1 5]
    novalidate_status novalidate_handle
  by auto

section \<open>Releases\<close>

text \<open>
  C8. For every failure of \<open>makeProgram\<close>, be it an unsuccessful link status or an
  unsuccessful validation status, the error is raised and no release is made: the calls
  of \<open>makeProgram\<close> contain no delete call at all, on the new program or on a shader.
  Across the whole file the only release is the \<^verbatim>\<open>deleteShader\<close> of \<open>makeShader\<close> on a
  shader whose compile status was reported unsuccessful: \<open>createBuffer\<close> and
  \<open>clearCanvas\<close> release nothing, and every release among the calls of \<open>drawCanvas\<close>
  is of that kind.
\<close>

theorem release_only_after_failed_compile:
  "(\<not> link_status gl t vs fs \<longrightarrow>
      (\<exists>es lg. makeProgram gl t vs fs v
                 = (Inl (Error (''ERROR linking program: '' @ to_string lg)), t @ es)
         \<and> \<not> list_ex is_release es))
   \<and> (link_status gl t vs fs \<and> v \<noteq> Some False \<and> \<not> validate_status gl t vs fs \<longrightarrow>
      (\<exists>es lg. makeProgram gl t vs fs v
                 = (Inl (Error (''ERROR validating program: '' @ to_string lg)), t @ es)
         \<and> \<not> list_ex is_release es))
   \<and> (\<exists>es. snd (makeProgram gl t vs fs v) = t @ es \<and> \<not> list_ex is_release es)
   \<and> (\<exists>es. snd (makeShader gl t src k) = t @ es \<and> list_all (release_ok es) es)
   \<and> (\<exists>es. createBuffer gl t p bufferData attrs ty usage = t @ es \<and> \<not> list_ex is_release es)
   \<and> (\<exists>es. clearCanvas t c = t @ es \<and> \<not> list_ex is_release es)
   \<and> (\<exists>es. snd (drawCanvas gl doc t bufferData attrs_opt ids_opt color_opt) = t @ es
          \<and> list_all (release_ok es) es)"
proof (intro conjI impI)
  assume "\<not> link_status gl t vs fs"
  then show "\<exists>es lg. makeProgram gl t vs fs v
                 = (Inl (Error (''ERROR linking program: '' @ to_string lg)), t @ es)
         \<and> \<not> list_ex is_release es"
    by (auto simp add: makeProgram_link_fail link_calls_def)
next
  assume "link_status gl t vs fs \<and> v \<noteq> Some False \<and> \<not> validate_status gl t vs fs"
  then show "\<exists>es lg. makeProgram gl t vs fs v
                 = (Inl (Error (''ERROR validating program: '' @ to_string lg)), t @ es)
         \<and> \<not> list_ex is_release es"
    by (auto simp add: makeProgram_validate_fail validate_calls_def link_calls_def)
next
  show "\<exists>es. snd (makeProgram gl t vs fs v) = t @ es \<and> \<not> list_ex is_release es"
    using makeProgram_extends [of gl t vs fs v] by blast
next
  show "\<exists>es. snd (makeShader gl t src k) = t @ es \<and> list_all (release_ok es) es"
    using makeShader_extends [of gl t src k] by blast
next
  show "\<exists>es. createBuffer gl t p bufferData attrs ty usage = t @ es \<and> \<not> list_ex is_release es"
    using createBuffer_extends [of gl t p bufferData attrs ty usage] by blast
next
  show "\<exists>es. clearCanvas t c = t @ es \<and> \<not> list_ex is_release es"
    by (simp add: clearCanvas_calls)
next
  show "\<exists>es. snd (drawCanvas gl doc t bufferData attrs_opt ids_opt color_opt) = t @ es
          \<and> list_all (release_ok es) es"
    by (rule drawCanvas_extends)
qed

text \<open>A context that refuses to link, and one that refuses to validate.\<close>

lemma nolink_status: "\<not> link_status nolink_gl two_shaders 1 5"
  by (simp add: link_status_def nolink_gl_def mock_gl_def LINK_STATUS_def)

lemma novalidate_fails:
  "link_status novalidate_gl two_shaders 1 5 \<and> (None :: bool option) \<noteq> Some False
   \<and> \<not> validate_status novalidate_gl two_shaders 1 5"
  by (simp add: link_status_def validate_status_def novalidate_gl_def mock_gl_def
        LINK_STATUS_def VALIDATE_STATUS_def)

theorem release_only_after_failed_compile_witness:
  "\<not> link_status nolink_gl two_shaders 1 5
   \<and> (\<exists>es lg. makeProgram nolink_gl two_shaders 1 5 None
                 = (Inl (Error (''ERROR linking program: '' @ to_string lg)), two_shaders @ es)
         \<and> \<not> list_ex is_release es)
   \<and> link_status novalidate_gl two_shaders 1 5
   \<and> \<not> validate_status novalidate_gl two_shaders 1 5
   \<and> (\<exists>es lg. makeProgram novalidate_gl two_shaders 1 5 None
                 = (Inl (Error (''ERROR validating program: '' @ to_string lg)), two_shaders @ es)
         \<and> \<not> list_ex is_release es)"
proof -
  have a: "\<exists>es lg. makeProgram nolink_gl two_shaders 1 5 None
                 = (Inl (Error (''ERROR linking program: '' @ to_string lg)), two_shaders @ es)
         \<and> \<not> list_ex is_release es"
    using release_only_after_failed_compile [of nolink_gl two_shaders 1 5 None] nolink_status
    by blast
  have b: "\<exists>es lg. makeProgram novalidate_gl two_shaders 1 5 None
                 = (Inl (Error (''ERROR validating program: '' @ to_string lg)), two_shaders @ es)
         \<and> \<not> list_ex is_release es"
    using release_only_after_failed_compile [of novalidate_gl two_shaders 1 5 None]
      novalidate_fails
    by blast
  show ?thesis using a b nolink_status novalidate_fails by blast
qed

section \<open>drawCanvas: the order of the calls\<close>

lemma no_draw_in_build: "list_all is_build es \<Longrightarrow> filter is_draw es = []"
proof (induction es)
  case Nil
  then show ?case by simp
next
  case (Cons e es)
  then show ?case by (cases e) simp_all
qed

lemma no_draw_in_upload: "list_all is_upload es \<Longrightarrow> filter is_draw es = []"
proof (induction es)
  case Nil
  then show ?case by simp
next
  case (Cons e es)
  then show ?case by (cases e) simp_all
qed

text \<open>
  C1. For every invocation of \<open>drawCanvas\<close> in which building the program succeeds
  (the buffer upload has no failure), the context receives, in this order: the calls of
  program construction; the calls of buffer creation, upload and attribute set-up; one
  \<^verbatim>\<open>viewport\<close> call with origin 0, 0 and the canvas width and height; one
  \<^verbatim>\<open>clearColor\<close> call with the components \<^verbatim>\<open>r\<close>, \<^verbatim>\<open>g\<close>, \<^verbatim>\<open>b\<close>, \<^verbatim>\<open>a\<close> of the given
  clear colour; one \<^verbatim>\<open>clear\<close> call; one \<^verbatim>\<open>useProgram\<close> call with the built program; and
  exactly one draw call, \<^verbatim>\<open>drawArrays\<close> with mode triangle strip, first vertex 0 and
  count 4.
\<close>

theorem drawCanvas_call_order:
  assumes "makeProgramFromScripts gl doc t
             (case ids_opt of None \<Rightarrow> default_shaderIds | Some v \<Rightarrow> v) = (Inr program, t1)"
    and "attrs = (case attrs_opt of None \<Rightarrow> [] | Some v \<Rightarrow> v)"
    and "color = (case color_opt of None \<Rightarrow> default_clearColor | Some v \<Rightarrow> v)"
  shows "\<exists>build upload.
           t1 = t @ build \<and> list_all is_build build
         \<and> createBuffer gl t1 program bufferData attrs None None = t1 @ upload
         \<and> list_all is_upload upload
         \<and> drawCanvas gl doc t bufferData attrs_opt ids_opt color_opt =
             (Inr (),
              t @ build @ upload
                @ [Viewport 0 0 (canvas_width gl) (canvas_height gl),
                   ClearColor (get_prop color ''r'') (get_prop color ''g'')
                              (get_prop color ''b'') (get_prop color ''a''),
                   Clear COLOR_BUFFER_BIT,
                   UseProgram program,
                   DrawArrays TRIANGLE_STRIP 0 4])
         \<and> filter is_draw
               (build @ upload
                @ [Viewport 0 0 (canvas_width gl) (canvas_height gl),
                   ClearColor (get_prop color ''r'') (get_prop color ''g'')
                              (get_prop color ''b'') (get_prop color ''a''),
                   Clear COLOR_BUFFER_BIT,
                   UseProgram program,
                   DrawArrays TRIANGLE_STRIP 0 4])
             = [DrawArrays TRIANGLE_STRIP 0 4]"
proof -
  let ?ids = "case ids_opt of None \<Rightarrow> default_shaderIds | Some v \<Rightarrow> v"
  obtain build where b: "t1 = t @ build" "list_all is_build build"
    using makeProgramFromScripts_extends [of gl doc t ?ids] assms(1) by auto
  obtain upload where u: "createBuffer gl t1 program bufferData attrs None None = t1 @ upload"
      "list_all is_upload upload"
    using createBuffer_extends by blast
  have "drawCanvas gl doc t bufferData attrs_opt ids_opt color_opt =
             (Inr (),
              t @ build @ upload
                @ [Viewport 0 0 (canvas_width gl) (canvas_height gl),
                   ClearColor (get_prop color ''r'') (get_prop color ''g'')
                              (get_prop color ''b'') (get_prop color ''a''),
                   Clear COLOR_BUFFER_BIT,
                   UseProgram program,
                   DrawArrays TRIANGLE_STRIP 0 4])"
    using drawCanvas_ok [OF assms(1)] u(1) b(1) assms(2,3) by simp
  moreover have "filter is_draw build = []" using b(2) by (rule no_draw_in_build)
  moreover have "filter is_draw upload = []" using u(2) by (rule no_draw_in_upload)
  ultimately show ?thesis using b u by (intro exI [of _ build] exI [of _ upload]) simp
qed

text \<open>The end-to-end example, run call by call on \<open>test_gl\<close>.\<close>

lemma test_vertex:
  "makeShader test_gl [] ''void main() {}'' VERTEX_SHADER = (Inr 1, take 4 two_shaders)"
  by (simp add: makeShader_def test_gl_def mock_gl_def reject_bad_def Let_def two_shaders_def)

lemma test_fragment:
  "makeShader test_gl (take 4 two_shaders) ''void main() { }'' FRAGMENT_SHADER
     = (Inr 5, two_shaders)"
  by (simp add: makeShader_def test_gl_def mock_gl_def reject_bad_def Let_def two_shaders_def)

lemma test_link: "makeProgram test_gl two_shaders 1 5 None = (Inr 9, test_program)"
  by (simp add: makeProgram_def test_gl_def mock_gl_def Let_def two_shaders_def
        test_program_def LINK_STATUS_def VALIDATE_STATUS_def)

lemma test_build:
  "makeProgramFromScripts test_gl test_doc [] default_shaderIds = (Inr 9, test_program)"
proof -
  have "test_doc (selector default_shaderIds 0) = Element ''void main() {}''"
    and "test_doc (selector default_shaderIds 1) = Element ''void main() { }''"
    by (simp_all add: test_doc_def selector_def id_at_def default_shaderIds_def)
  then show ?thesis
    by (simp only: makeProgramFromScripts_def selected.case test_vertex test_fragment test_link
          prod.case sum.case)
qed

lemma test_upload:
  "createBuffer test_gl test_program 9 (Some quad) [pos_attr] None None =
     test_program @
     [CreateBuffer 16, BindBuffer ARRAY_BUFFER 16, BufferData ARRAY_BUFFER (Some quad) STATIC_DRAW,
      GetAttribLocation 9 ''pos'' 0, VertexAttribPointer 0 2 FLOAT False 8 0,
      EnableVertexAttribArray 0]"
  by (simp add: createBuffer_def Let_def test_gl_def mock_gl_def only_pos_def pos_attr_def
        createAttribute_def BYTES_PER_ELEMENT_def test_program_def two_shaders_def
        int_of_safe to_double_exact)

lemma red_components:
  "get_prop red ''r'' = Number 1" "get_prop red ''g'' = Number 0"
  "get_prop red ''b'' = Number 0" "get_prop red ''a'' = Number 1"
  by (simp_all add: get_prop_def red_def)

theorem drawCanvas_call_order_witness:
  "makeProgramFromScripts test_gl test_doc [] default_shaderIds = (Inr 9, test_program)
   \<and> drawCanvas test_gl test_doc [] (Some quad) (Some [pos_attr]) None (Some red) =
       (Inr (),
        test_program @
        [CreateBuffer 16, BindBuffer ARRAY_BUFFER 16,
         BufferData ARRAY_BUFFER (Some quad) STATIC_DRAW,
         GetAttribLocation 9 ''pos'' 0, VertexAttribPointer 0 2 FLOAT False 8 0,
         EnableVertexAttribArray 0,
         Viewport 0 0 300 150,
         ClearColor (Number 1) (Number 0) (Number 0) (Number 1),
         Clear COLOR_BUFFER_BIT,
         UseProgram 9,
         DrawArrays TRIANGLE_STRIP 0 4])"
proof -
  have p: "makeProgramFromScripts test_gl test_doc []
             (case None of None \<Rightarrow> default_shaderIds | Some v \<Rightarrow> v) = (Inr 9, test_program)"
    by (simp add: test_build)
  have a: "[pos_attr] = (case Some [pos_attr] of None \<Rightarrow> [] | Some v \<Rightarrow> v)" by simp
  have c: "red = (case Some red of None \<Rightarrow> default_clearColor | Some v \<Rightarrow> v)" by simp
  have w: "canvas_width test_gl = 300" "canvas_height test_gl = 150"
    by (simp_all add: test_gl_def mock_gl_def)
  obtain build upload where
      "test_program = [] @ build"
      "createBuffer test_gl test_program 9 (Some quad) [pos_attr] None None
         = test_program @ upload"
      "drawCanvas test_gl test_doc [] (Some quad) (Some [pos_attr]) None (Some red) =
         (Inr (),
          [] @ build @ upload
            @ [Viewport 0 0 (canvas_width test_gl) (canvas_height test_gl),
               ClearColor (get_prop red ''r'') (get_prop red ''g'')
                          (get_prop red ''b'') (get_prop red ''a''),
               Clear COLOR_BUFFER_BIT,
               UseProgram 9,
               DrawArrays TRIANGLE_STRIP 0 4])"
    using drawCanvas_call_order [OF p a c, of "Some quad"] by blast
  then show ?thesis using test_build test_upload red_components w by simp
qed

section \<open>makeShader: a compilation that fails\<close>

lemma test_broken_vertex:
  "makeShader test_gl [] ''bad'' VERTEX_SHADER
     = (Inl (Error ''ERROR compiling vertex shader: null''), failed_compile VERTEX_SHADER 1)"
  by (simp add: makeShader_def test_gl_def mock_gl_def reject_bad_def Let_def failed_compile_def)

lemma test_broken_fragment:
  "makeShader test_gl (take 4 two_shaders) ''bad'' FRAGMENT_SHADER
     = (Inl (Error ''ERROR compiling fragment shader: null''),
        take 4 two_shaders @ failed_compile FRAGMENT_SHADER 5)"
  by (simp add: makeShader_def test_gl_def mock_gl_def reject_bad_def Let_def failed_compile_def
        two_shaders_def VERTEX_SHADER_def FRAGMENT_SHADER_def)

text \<open>
  On every context, a run of \<open>makeShader\<close> whose compile status is reported unsuccessful
  deletes the shader it created, so that the count of live shaders is what it was, and
  fails with a message made of the shader kind and of the info log. The log is asked for
  after the shader has been deleted: the message carries what the context answers then.
\<close>

lemma makeShader_failed_shader_released:
  assumes "\<not> compile_status gl t src k"
  shows "DeleteShader (createShader_r gl t k) \<in> set (snd (makeShader gl t src k))"
    and "live_shaders (snd (makeShader gl t src k)) live = live_shaders t live"
  using assms by (simp_all add: makeShader_fail live_shaders_append compile_calls_def)

lemma makeShader_message_is_late_log:
  assumes "\<not> compile_status gl t src k"
  shows "\<exists>es. snd (makeShader gl t src k) = t @ es @ [DeleteShader (createShader_r gl t k),
              GetShaderInfoLog (createShader_r gl t k)
                (getShaderInfoLog_r gl (t @ es @ [DeleteShader (createShader_r gl t k)])
                   (createShader_r gl t k))]
          \<and> fst (makeShader gl t src k) =
              Inl (Error (''ERROR compiling ''
                     @ (if k = VERTEX_SHADER then ''vertex'' else ''fragment'') @ '' shader: ''
                     @ to_string (getShaderInfoLog_r gl
                         (t @ es @ [DeleteShader (createShader_r gl t k)])
                         (createShader_r gl t k))))"
  using assms
  by (intro exI [of _ "compile_calls k (createShader_r gl t k) src
         @ [GetShaderParameter (createShader_r gl t k) COMPILE_STATUS False]"])
     (simp add: makeShader_fail)

text \<open>
  C4. The claim: when the compile status is unsuccessful, \<open>makeShader\<close> releases the
  shader and fails with an error carrying the shader kind and the diagnostic log of the
  driver. On \<open>test_gl\<close>, which like a WebGL 1.0 context has no log for a deleted shader,
  the text \<^verbatim>\<open>bad\<close> fails to compile with the diagnostic \<^verbatim>\<open>0:1: syntax error\<close>; the
  shader is released, no shader stays live, and the error message ends in \<^verbatim>\<open>null\<close>:
  the diagnostic, still there before the \<^verbatim>\<open>deleteShader\<close> call, is not in it.
\<close>

theorem makeShader_reads_log_of_deleted_shader:
  "\<not> compile_status test_gl [] ''bad'' VERTEX_SHADER
   \<and> makeShader test_gl [] ''bad'' VERTEX_SHADER
       = (Inl (Error ''ERROR compiling vertex shader: null''), failed_compile VERTEX_SHADER 1)
   \<and> getShaderInfoLog_r test_gl (take 4 (failed_compile VERTEX_SHADER 1)) 1
       = Some ''0:1: syntax error''
   \<and> getShaderInfoLog_r test_gl (take 5 (failed_compile VERTEX_SHADER 1)) 1 = None
   \<and> live_shaders (failed_compile VERTEX_SHADER 1) [] = []"
proof -
  have "\<not> compile_status test_gl [] ''bad'' VERTEX_SHADER"
    by (simp add: compile_status_def compile_calls_def test_gl_def mock_gl_def reject_bad_def)
  moreover have "getShaderInfoLog_r test_gl (take 4 (failed_compile VERTEX_SHADER 1)) 1
       = Some ''0:1: syntax error''"
    by (simp add: failed_compile_def test_gl_def mock_gl_def reject_bad_def)
  moreover have "getShaderInfoLog_r test_gl (take 5 (failed_compile VERTEX_SHADER 1)) 1 = None"
    by (simp add: failed_compile_def test_gl_def mock_gl_def reject_bad_def)
  moreover have "live_shaders (failed_compile VERTEX_SHADER 1) [] = []"
    by (simp add: failed_compile_def)
  ultimately show ?thesis using test_broken_vertex by simp
qed

section \<open>clearCanvas: the colour object\<close>

text \<open>
  \<open>clearCanvas\<close> reads the properties \<^verbatim>\<open>r\<close>, \<^verbatim>\<open>g\<close>, \<^verbatim>\<open>b\<close> and \<^verbatim>\<open>a\<close> of the colour object:
  for an object that has them, it sets the clear colour to these four numbers, clears
  the colour buffer, and does nothing else.
\<close>

lemma clearCanvas_rgba:
  assumes "c ''r'' = Some r" "c ''g'' = Some g" "c ''b'' = Some b" "c ''a'' = Some a"
  shows "clearCanvas t c
           = t @ [ClearColor (Number r) (Number g) (Number b) (Number a), Clear COLOR_BUFFER_BIT]"
  using assms by (simp add: clearCanvas_calls get_prop_def)

text \<open>
  C7. The claim: for every colour value \<^verbatim>\<open>{ red, green, blue, alpha }\<close>, \<open>clearCanvas\<close>
  sets the clear colour to exactly these four components and then clears the colour
  buffer. For opaque red written with these property names, the names of the
  \<^verbatim>\<open>ColorObject\<close> typedef in the source, all four arguments of the \<^verbatim>\<open>clearColor\<close> call
  are \<^verbatim>\<open>undefined\<close>; written with \<^verbatim>\<open>r\<close>, \<^verbatim>\<open>g\<close>, \<^verbatim>\<open>b\<close>, \<^verbatim>\<open>a\<close> the call is
  \<^verbatim>\<open>clearColor(1, 0, 0, 1)\<close>.
\<close>

theorem clearCanvas_ignores_documented_names:
  "documented_red ''red'' = Some 1 \<and> documented_red ''green'' = Some 0
   \<and> documented_red ''blue'' = Some 0 \<and> documented_red ''alpha'' = Some 1
   \<and> clearCanvas [] documented_red
       = [ClearColor Undefined Undefined Undefined Undefined, Clear COLOR_BUFFER_BIT]
   \<and> clearCanvas [] red
       = [ClearColor (Number 1) (Number 0) (Number 0) (Number 1), Clear COLOR_BUFFER_BIT]"
  by (simp add: clearCanvas_calls get_prop_def documented_red_def red_def)

section \<open>drawCanvas: the same inputs and answers give the same calls\<close>

text \<open>
  A run is replayed on another context: when that context gives the queries of the run
  the answers the first one gave, each function returns what it returned and makes the
  calls it made.
\<close>

lemma answers_as_append:
  "answers_as gl t (xs @ ys) = (answers_as gl t xs \<and> answers_as gl (t @ xs) ys)"
  by (induction xs arbitrary: t) simp_all

lemma replay_makeShader:
  assumes "snd (makeShader gl1 t src k) = t @ es" and "answers_as gl2 t es"
  shows "makeShader gl2 t src k = makeShader gl1 t src k"
proof (cases "compile_status gl1 t src k")
  case True
  with assms have "createShader_r gl2 t k = createShader_r gl1 t k"
    and "getShaderParameter_r gl2 (t @ compile_calls k (createShader_r gl1 t k) src)
           (createShader_r gl1 t k) COMPILE_STATUS"
    by (auto simp add: makeShader_ok compile_calls_def)
  then have "compile_status gl2 t src k" by (simp add: compile_status_def)
  with True \<open>createShader_r gl2 t k = createShader_r gl1 t k\<close> show ?thesis
    by (simp add: makeShader_ok)
next
  case False
  with assms have h: "createShader_r gl2 t k = createShader_r gl1 t k"
    and s: "\<not> getShaderParameter_r gl2 (t @ compile_calls k (createShader_r gl1 t k) src)
           (createShader_r gl1 t k) COMPILE_STATUS"
    and l: "getShaderInfoLog_r gl2
              (t @ compile_calls k (createShader_r gl1 t k) src
                 @ [GetShaderParameter (createShader_r gl1 t k) COMPILE_STATUS False,
                    DeleteShader (createShader_r gl1 t k)])
              (createShader_r gl1 t k)
            = getShaderInfoLog_r gl1
              (t @ compile_calls k (createShader_r gl1 t k) src
                 @ [GetShaderParameter (createShader_r gl1 t k) COMPILE_STATUS False,
                    DeleteShader (createShader_r gl1 t k)])
              (createShader_r gl1 t k)"
    by (auto simp add: makeShader_fail compile_calls_def)
  from h s have "\<not> compile_status gl2 t src k" by (simp add: compile_status_def)
  with False h l show ?thesis by (simp add: makeShader_fail)
qed


lemma replay_makeProgram:
  assumes "snd (makeProgram gl1 t vs fs v) = t @ es" and "answers_as gl2 t es"
  shows "makeProgram gl2 t vs fs v = makeProgram gl1 t vs fs v"
  using assms
  by (auto simp add: makeProgram_def Let_def split: if_splits option.splits)

lemma replay_forEach_attr:
  assumes "forEach_attr gl1 p t attrs = t @ es" and "answers_as gl2 t es"
  shows "forEach_attr gl2 p t attrs = forEach_attr gl1 p t attrs"
  using assms
proof (induction attrs arbitrary: t es)
  case Nil
  show ?case by simp
next
  case (Cons a attrs)
  let ?loc = "getAttribLocation_r gl1 t p (name a)"
  let ?t' = "t @ attr_setup p a ?loc"
  have step: "forEach_attr gl1 p t (a # attrs) = forEach_attr gl1 p ?t' attrs"
    by (simp add: Let_def attr_setup_def)
  obtain es' where e': "forEach_attr gl1 p ?t' attrs = ?t' @ es'"
    by (simp add: forEach_attr_calls)
  with Cons.prems(1) step have es: "es = attr_setup p a ?loc @ es'" by simp
  with Cons.prems(2) have a1: "getAttribLocation_r gl2 t p (name a) = ?loc"
    and a2: "answers_as gl2 ?t' es'"
    by (simp_all add: answers_as_append attr_setup_def)
  have "forEach_attr gl2 p ?t' attrs = forEach_attr gl1 p ?t' attrs"
    using e' a2 by (rule Cons.IH)
  with a1 show ?case by (simp add: Let_def attr_setup_def)
qed

lemma replay_createBuffer:
  assumes "createBuffer gl1 t p bufferData attrs ty usage = t @ es"
    and "answers_as gl2 t es"
  shows "createBuffer gl2 t p bufferData attrs ty usage
           = createBuffer gl1 t p bufferData attrs ty usage"
proof -
  let ?start = "upload_start gl1 t bufferData ty usage"
  obtain es' where e': "forEach_attr gl1 p ?start attrs = ?start @ es'"
    by (simp add: forEach_attr_calls)
  have c: "createBuffer gl1 t p bufferData attrs ty usage = forEach_attr gl1 p ?start attrs"
    by (simp add: createBuffer_def Let_def upload_start_def buffer_calls_def)
  with assms(1) e' have es: "es = buffer_calls (createBuffer_r gl1 t)
        (case ty of None \<Rightarrow> ARRAY_BUFFER | Some v \<Rightarrow> v) bufferData
        (case usage of None \<Rightarrow> STATIC_DRAW | Some v \<Rightarrow> v) @ es'"
    by (simp add: upload_start_def)
  with assms(2) have b: "createBuffer_r gl2 t = createBuffer_r gl1 t"
    and a: "answers_as gl2 ?start es'"
    by (simp_all add: answers_as_append buffer_calls_def upload_start_def)
  have "forEach_attr gl2 p ?start attrs = forEach_attr gl1 p ?start attrs"
    using e' a by (rule replay_forEach_attr)
  with b show ?thesis
    by (simp add: createBuffer_def Let_def upload_start_def buffer_calls_def)
qed


lemma replay_makeProgramFromScripts:
  assumes "snd (makeProgramFromScripts gl1 doc t ids) = t @ es" and "answers_as gl2 t es"
  shows "makeProgramFromScripts gl2 doc t ids = makeProgramFromScripts gl1 doc t ids"
proof (cases "doc (selector ids 0)")
  case Invalid
  then show ?thesis by (simp add: makeProgramFromScripts_def)
next
  case Null
  then show ?thesis by (simp add: makeProgramFromScripts_def)
next
  case (Element vtxt)
  note v = this
  obtain r1 es1 where m1: "makeShader gl1 t vtxt VERTEX_SHADER = (r1, t @ es1)"
    using makeShader_extends [of gl1 t vtxt VERTEX_SHADER]
    by (metis prod.collapse)
  show ?thesis
  proof (cases r1)
    case (Inl e)
    with v m1 assms(1) have "es = es1" by (simp add: makeProgramFromScripts_def)
    with assms(2) m1 have "makeShader gl2 t vtxt VERTEX_SHADER = (r1, t @ es1)"
      using replay_makeShader [of gl1 t vtxt VERTEX_SHADER es1 gl2] by simp
    with v m1 Inl show ?thesis by (simp add: makeProgramFromScripts_def)
  next
    case (Inr vs)
    note r1 = this
    show ?thesis
    proof (cases "doc (selector ids 1)")
      case Invalid
      with v m1 r1 assms(1) have "es = es1" by (simp add: makeProgramFromScripts_def)
      with assms(2) m1 have "makeShader gl2 t vtxt VERTEX_SHADER = (r1, t @ es1)"
        using replay_makeShader [of gl1 t vtxt VERTEX_SHADER es1 gl2] by simp
      with v m1 r1 Invalid show ?thesis by (simp add: makeProgramFromScripts_def)
    next
      case Null
      with v m1 r1 assms(1) have "es = es1" by (simp add: makeProgramFromScripts_def)
      with assms(2) m1 have "makeShader gl2 t vtxt VERTEX_SHADER = (r1, t @ es1)"
        using replay_makeShader [of gl1 t vtxt VERTEX_SHADER es1 gl2] by simp
      with v m1 r1 Null show ?thesis by (simp add: makeProgramFromScripts_def)
    next
      case (Element ftxt)
      note f = this
      obtain r2 es2 where
        m2: "makeShader gl1 (t @ es1) ftxt FRAGMENT_SHADER = (r2, (t @ es1) @ es2)"
        using makeShader_extends [of gl1 "t @ es1" ftxt FRAGMENT_SHADER]
        by (metis prod.collapse)
      show ?thesis
      proof (cases r2)
        case (Inl e)
        with v f m1 m2 r1 assms(1) have "es = es1 @ es2"
          by (simp add: makeProgramFromScripts_def)
        with assms(2) have a1: "answers_as gl2 t es1" and a2: "answers_as gl2 (t @ es1) es2"
          by (simp_all add: answers_as_append)
        have "makeShader gl2 t vtxt VERTEX_SHADER = (r1, t @ es1)"
          using replay_makeShader [of gl1 t vtxt VERTEX_SHADER es1 gl2] m1 a1 by simp
        moreover have "makeShader gl2 (t @ es1) ftxt FRAGMENT_SHADER = (r2, (t @ es1) @ es2)"
          using replay_makeShader [of gl1 "t @ es1" ftxt FRAGMENT_SHADER es2 gl2] m2 a2
          by simp
        ultimately show ?thesis
          using v f m1 m2 r1 Inl by (simp add: makeProgramFromScripts_def)
      next
        case (Inr fs)
        obtain es3 where
          m3: "snd (makeProgram gl1 ((t @ es1) @ es2) vs fs None) = ((t @ es1) @ es2) @ es3"
          using makeProgram_extends [of gl1 "(t @ es1) @ es2" vs fs None] by blast
        with v f m1 m2 r1 Inr assms(1) have "es = es1 @ es2 @ es3"
          by (simp add: makeProgramFromScripts_def)
        with assms(2) have a1: "answers_as gl2 t es1" and a2: "answers_as gl2 (t @ es1) es2"
          and a3: "answers_as gl2 ((t @ es1) @ es2) es3"
          by (simp_all add: answers_as_append)
        have "makeShader gl2 t vtxt VERTEX_SHADER = (r1, t @ es1)"
          using replay_makeShader [of gl1 t vtxt VERTEX_SHADER es1 gl2] m1 a1 by simp
        moreover have "makeShader gl2 (t @ es1) ftxt FRAGMENT_SHADER = (r2, (t @ es1) @ es2)"
          using replay_makeShader [of gl1 "t @ es1" ftxt FRAGMENT_SHADER es2 gl2] m2 a2
          by simp
        moreover have "makeProgram gl2 ((t @ es1) @ es2) vs fs None
                         = makeProgram gl1 ((t @ es1) @ es2) vs fs None"
          using m3 a3 by (rule replay_makeProgram)
        ultimately show ?thesis
          using v f m1 m2 r1 Inr by (simp add: makeProgramFromScripts_def)
      qed
    qed
  qed
qed

text \<open>
  Every run answers to this description: a context gives its own run the answers
  recorded in it.
\<close>

lemma makeShader_own_answers:
  "\<exists>es. snd (makeShader gl t src k) = t @ es \<and> answers_as gl t es"
  by (cases "compile_status gl t src k")
     (simp_all add: makeShader_ok makeShader_fail compile_calls_def compile_status_def)

lemma makeProgram_own_answers:
  "\<exists>es. snd (makeProgram gl t vs fs v) = t @ es \<and> answers_as gl t es"
  by (simp add: makeProgram_def Let_def split: option.split)

lemma forEach_attr_own_answers:
  "\<exists>es. forEach_attr gl p t attrs = t @ es \<and> answers_as gl t es"
proof (induction attrs arbitrary: t)
  case Nil
  show ?case by simp
next
  case (Cons a attrs)
  let ?loc = "getAttribLocation_r gl t p (name a)"
  obtain es where e: "forEach_attr gl p (t @ attr_setup p a ?loc) attrs
                        = (t @ attr_setup p a ?loc) @ es"
      "answers_as gl (t @ attr_setup p a ?loc) es"
    using Cons.IH by blast
  have "forEach_attr gl p t (a # attrs) = t @ attr_setup p a ?loc @ es"
    using e(1) by (simp add: Let_def attr_setup_def)
  moreover have "answers_as gl t (attr_setup p a ?loc @ es)"
    using e(2) by (simp add: answers_as_append attr_setup_def)
  ultimately show ?case by blast
qed

lemma createBuffer_own_answers:
  "\<exists>es. createBuffer gl t p bufferData attrs ty usage = t @ es \<and> answers_as gl t es"
proof -
  let ?b = "buffer_calls (createBuffer_r gl t)
        (case ty of None \<Rightarrow> ARRAY_BUFFER | Some v \<Rightarrow> v) bufferData
        (case usage of None \<Rightarrow> STATIC_DRAW | Some v \<Rightarrow> v)"
  obtain es where e: "forEach_attr gl p (t @ ?b) attrs = (t @ ?b) @ es"
      "answers_as gl (t @ ?b) es"
    using forEach_attr_own_answers by blast
  have "createBuffer gl t p bufferData attrs ty usage = t @ ?b @ es"
    using e(1) by (simp add: createBuffer_def Let_def buffer_calls_def)
  moreover have "answers_as gl t (?b @ es)"
    using e(2) by (simp add: answers_as_append buffer_calls_def)
  ultimately show ?thesis by blast
qed

lemma makeProgramFromScripts_own_answers:
  "\<exists>es. snd (makeProgramFromScripts gl doc t ids) = t @ es \<and> answers_as gl t es"
proof (cases "doc (selector ids 0)")
  case Invalid
  then show ?thesis by (simp add: makeProgramFromScripts_def)
next
  case Null
  then show ?thesis by (simp add: makeProgramFromScripts_def)
next
  case (Element vtxt)
  note v = this
  obtain r1 es1 where m1: "makeShader gl t vtxt VERTEX_SHADER = (r1, t @ es1)"
      and a1: "answers_as gl t es1"
    using makeShader_own_answers [of gl t vtxt VERTEX_SHADER] by (metis prod.collapse)
  show ?thesis
  proof (cases r1)
    case (Inl e)
    with v m1 a1 show ?thesis by (simp add: makeProgramFromScripts_def)
  next
    case (Inr vs)
    note r1 = this
    show ?thesis
    proof (cases "doc (selector ids 1)")
      case Invalid
      with v m1 a1 r1 show ?thesis by (simp add: makeProgramFromScripts_def)
    next
      case Null
      with v m1 a1 r1 show ?thesis by (simp add: makeProgramFromScripts_def)
    next
      case (Element ftxt)
      obtain r2 es2 where
        m2: "makeShader gl (t @ es1) ftxt FRAGMENT_SHADER = (r2, (t @ es1) @ es2)"
        and a2: "answers_as gl (t @ es1) es2"
        using makeShader_own_answers [of gl "t @ es1" ftxt FRAGMENT_SHADER]
        by (metis prod.collapse)
      show ?thesis
      proof (cases r2)
        case (Inl e)
        have "answers_as gl t (es1 @ es2)" using a1 a2 by (simp add: answers_as_append)
        moreover have "snd (makeProgramFromScripts gl doc t ids) = t @ es1 @ es2"
          using v Element m1 m2 r1 Inl by (simp add: makeProgramFromScripts_def)
        ultimately show ?thesis by blast
      next
        case (Inr fs)
        obtain es3 where
          m3: "snd (makeProgram gl ((t @ es1) @ es2) vs fs None) = ((t @ es1) @ es2) @ es3"
          and a3: "answers_as gl ((t @ es1) @ es2) es3"
          using makeProgram_own_answers by blast
        have "answers_as gl t (es1 @ es2 @ es3)"
          using a1 a2 a3 by (simp add: answers_as_append)
        moreover have "snd (makeProgramFromScripts gl doc t ids) = t @ es1 @ es2 @ es3"
          using v Element m1 m2 m3 r1 Inr by (simp add: makeProgramFromScripts_def)
        ultimately show ?thesis by blast
      qed
    qed
  qed
qed

lemma drawCanvas_own_answers:
  "\<exists>es. snd (drawCanvas gl doc t bufferData attrs_opt ids_opt color_opt) = t @ es
        \<and> answers_as gl t es"
proof -
  let ?ids = "case ids_opt of None \<Rightarrow> default_shaderIds | Some v \<Rightarrow> v"
  let ?attrs = "case attrs_opt of None \<Rightarrow> [] | Some v \<Rightarrow> v"
  obtain r es1 where m: "makeProgramFromScripts gl doc t ?ids = (r, t @ es1)"
      and a1: "answers_as gl t es1"
    using makeProgramFromScripts_own_answers [of gl doc t ?ids] by (metis prod.collapse)
  show ?thesis
  proof (cases r)
    case (Inl e)
    with m a1 show ?thesis by (simp add: drawCanvas_fail)
  next
    case (Inr program)
    obtain es2 where
      u: "createBuffer gl (t @ es1) program bufferData ?attrs None None = (t @ es1) @ es2"
      and a2: "answers_as gl (t @ es1) es2"
      using createBuffer_own_answers by blast
    let ?color = "case color_opt of None \<Rightarrow> default_clearColor | Some v \<Rightarrow> v"
    let ?tl = "[Viewport 0 0 (canvas_width gl) (canvas_height gl),
                ClearColor (get_prop ?color ''r'') (get_prop ?color ''g'')
                           (get_prop ?color ''b'') (get_prop ?color ''a''),
                Clear COLOR_BUFFER_BIT, UseProgram program, DrawArrays TRIANGLE_STRIP 0 4]"
    have "snd (drawCanvas gl doc t bufferData attrs_opt ids_opt color_opt)
            = t @ es1 @ es2 @ ?tl"
      using m Inr u by (simp add: drawCanvas_ok)
    moreover have "answers_as gl t (es1 @ es2 @ ?tl)"
      using a1 a2 by (simp add: answers_as_append)
    ultimately show ?thesis by blast
  qed
qed

text \<open>
  C9. For every fixed input (vertex data, attribute descriptors, shader identifiers,
  clear colour, document) and two contexts that have received the same calls so far
  (none, when both are fresh) and behave identically towards the invocation, that is,
  the second answers every query the invocation makes on the first as the first did and
  has a canvas of the same size, two invocations of \<open>drawCanvas\<close> give the same outcome and
  the same sequence of context calls. The contexts may differ in every answer the
  invocation does not ask for: the outcome and the calls are determined by the inputs
  and the answers received, and by nothing else.
\<close>

theorem drawCanvas_deterministic:
  assumes "snd (drawCanvas gl1 doc t bufferData attrs_opt ids_opt color_opt) = t @ es"
    and "answers_as gl2 t es"
    and "canvas_width gl2 = canvas_width gl1"
    and "canvas_height gl2 = canvas_height gl1"
  shows "drawCanvas gl2 doc t bufferData attrs_opt ids_opt color_opt
           = drawCanvas gl1 doc t bufferData attrs_opt ids_opt color_opt"
proof -
  let ?ids = "case ids_opt of None \<Rightarrow> default_shaderIds | Some v \<Rightarrow> v"
  let ?attrs = "case attrs_opt of None \<Rightarrow> [] | Some v \<Rightarrow> v"
  obtain r es1 where m: "makeProgramFromScripts gl1 doc t ?ids = (r, t @ es1)"
    using makeProgramFromScripts_extends [of gl1 doc t ?ids] by (metis prod.collapse)
  show ?thesis
  proof (cases r)
    case (Inl e)
    with m assms(1) have "es = es1" by (simp add: drawCanvas_fail)
    with assms(2) m have "makeProgramFromScripts gl2 doc t ?ids = (r, t @ es1)"
      using replay_makeProgramFromScripts [of gl1 doc t ?ids es1 gl2] by simp
    with m Inl show ?thesis by (simp add: drawCanvas_fail)
  next
    case (Inr program)
    obtain es2 where
      u: "createBuffer gl1 (t @ es1) program bufferData ?attrs None None = (t @ es1) @ es2"
      using createBuffer_extends by blast
    let ?color = "case color_opt of None \<Rightarrow> default_clearColor | Some v \<Rightarrow> v"
    let ?tl = "[Viewport 0 0 (canvas_width gl1) (canvas_height gl1),
                ClearColor (get_prop ?color ''r'') (get_prop ?color ''g'')
                           (get_prop ?color ''b'') (get_prop ?color ''a''),
                Clear COLOR_BUFFER_BIT, UseProgram program, DrawArrays TRIANGLE_STRIP 0 4]"
    have "snd (drawCanvas gl1 doc t bufferData attrs_opt ids_opt color_opt)
            = t @ es1 @ es2 @ ?tl"
      using m Inr u by (simp add: drawCanvas_ok)
    with assms(1) have es: "es = es1 @ es2 @ ?tl" by simp
    with assms(2) have a1: "answers_as gl2 t es1" and a2: "answers_as gl2 (t @ es1) es2"
      by (simp_all add: answers_as_append)
    have "makeProgramFromScripts gl2 doc t ?ids = (Inr program, t @ es1)"
      using replay_makeProgramFromScripts [of gl1 doc t ?ids es1 gl2] m Inr a1 by simp
    moreover have "createBuffer gl2 (t @ es1) program bufferData ?attrs None None
                     = createBuffer gl1 (t @ es1) program bufferData ?attrs None None"
      using u a2 by (rule replay_createBuffer)
    ultimately show ?thesis
      using m Inr assms(3,4) by (simp add: drawCanvas_ok)
  qed
qed

text \<open>The example frame on \<open>test_gl\<close>, replayed on \<open>other_gl\<close>.\<close>

lemma test_frame_run:
  "drawCanvas test_gl test_doc [] (Some quad) (Some [pos_attr]) None (Some red)
     = (Inr (), test_frame)"
proof -
  have p: "makeProgramFromScripts test_gl test_doc []
             (case None of None \<Rightarrow> default_shaderIds | Some v \<Rightarrow> v) = (Inr 9, test_program)"
    by (simp add: test_build)
  have w: "canvas_width test_gl = 300" "canvas_height test_gl = 150"
    by (simp_all add: test_gl_def mock_gl_def)
  show ?thesis
    using drawCanvas_ok [OF p, of "Some quad" "Some [pos_attr]" "Some red"]
      test_upload red_components w
    by (simp add: test_frame_def)
qed

lemma other_gl_answers: "answers_as other_gl [] test_frame"
  by (simp add: test_frame_def test_program_def two_shaders_def other_gl_def test_gl_def
        mock_gl_def reject_bad_def LINK_STATUS_def VALIDATE_STATUS_def)

lemma other_gl_differs:
  "getAttribLocation_r other_gl [] 9 ''uv'' = 7" "getAttribLocation_r test_gl [] 9 ''uv'' = - 1"
  "canvas_width other_gl = canvas_width test_gl" "canvas_height other_gl = canvas_height test_gl"
  by (simp_all add: other_gl_def test_gl_def mock_gl_def only_pos_def)

theorem drawCanvas_deterministic_witness:
  "snd (drawCanvas test_gl test_doc [] (Some quad) (Some [pos_attr]) None (Some red))
     = [] @ test_frame
   \<and> answers_as other_gl [] test_frame
   \<and> canvas_width other_gl = canvas_width test_gl
   \<and> canvas_height other_gl = canvas_height test_gl
   \<and> getAttribLocation_r other_gl [] 9 ''uv'' \<noteq> getAttribLocation_r test_gl [] 9 ''uv''
   \<and> drawCanvas other_gl test_doc [] (Some quad) (Some [pos_attr]) None (Some red)
       = drawCanvas test_gl test_doc [] (Some quad) (Some [pos_attr]) None (Some red)"
proof -
  have r: "snd (drawCanvas test_gl test_doc [] (Some quad) (Some [pos_attr]) None (Some red))
     = [] @ test_frame"
    by (simp add: test_frame_run)
  show ?thesis
    using drawCanvas_deterministic [OF r other_gl_answers other_gl_differs(3,4)]
      r other_gl_answers other_gl_differs
    by simp
qed

section \<open>makeProgramFromScripts: failures\<close>

lemma test_ids:
  "test_doc (selector [''broken'', ''missing''] 0) = Element ''bad''"
  "test_doc (selector [''broken'', ''missing''] 1) = Null"
  "test_doc (selector [''missing'', ''fragmentShader''] 0) = Null"
  "test_doc (selector [''1st'', ''fragmentShader''] 0) = Invalid"
  "test_doc (selector [''vertexShader'', ''missing''] 0) = Element ''void main() {}''"
  "test_doc (selector [''vertexShader'', ''missing''] 1) = Null"
  "test_doc (selector [''vertexShader'', ''1st''] 0) = Element ''void main() {}''"
  "test_doc (selector [''vertexShader'', ''1st''] 1) = Invalid"
  "test_doc (selector [''vertexShader'', ''broken''] 0) = Element ''void main() {}''"
  "test_doc (selector [''vertexShader'', ''broken''] 1) = Element ''bad''"
  "test_doc (selector default_shaderIds 0) = Element ''void main() {}''"
  "test_doc (selector default_shaderIds 1) = Element ''void main() { }''"
  by (simp_all add: test_doc_def selector_def id_at_def default_shaderIds_def)

text \<open>
  The claim C6 as it is written asks for the missing-element failure whenever one of the
  two identifiers selects no element of the document. The identifiers are looked up one
  after the other, the vertex shader being compiled in between: with a vertex element
  whose text does not compile and no fragment element, the failure is the compile error.
\<close>

theorem missing_fragment_hidden_by_compile_error:
  "test_doc (selector [''broken'', ''missing''] 1) = Null
   \<and> fst (makeProgramFromScripts test_gl test_doc [] [''broken'', ''missing''])
       = Inl (Error ''ERROR compiling vertex shader: null'')
   \<and> fst (makeProgramFromScripts test_gl test_doc [] [''broken'', ''missing'']) \<noteq> Inl TypeError"
proof -
  have "makeProgramFromScripts test_gl test_doc [] [''broken'', ''missing'']
          = (Inl (Error ''ERROR compiling vertex shader: null''), failed_compile VERTEX_SHADER 1)"
    by (simp only: makeProgramFromScripts_def test_ids selected.case test_broken_vertex
          prod.case sum.case)
  then show ?thesis using test_ids(2) by simp
qed

text \<open>
  C6, amended. \<open>makeProgramFromScripts\<close> fails whenever the selector made of one of the
  two identifiers selects no element. When the vertex selector selects none, the failure
  comes before any context call: the \<^verbatim>\<open>TypeError\<close> of reading the text of \<^verbatim>\<open>null\<close> when
  no element matches, the \<^verbatim>\<open>SyntaxError\<close> of \<^verbatim>\<open>querySelector\<close> when the string is not a
  selector. When the vertex shader does not compile, the failure is its compile error,
  whatever the fragment identifier. When the vertex shader compiles and the fragment
  selector selects no element, the failure is again the \<^verbatim>\<open>TypeError\<close> or the
  \<^verbatim>\<open>SyntaxError\<close>. For identifiers that select elements, the error of either
  compilation is returned as it is, with the calls made so far, and after two successful
  compilations the outcome is that of \<open>makeProgram\<close> with validation.
\<close>

theorem makeProgramFromScripts_failures:
  "((doc (selector ids 0) = Null \<or> doc (selector ids 0) = Invalid
       \<or> doc (selector ids 1) = Null \<or> doc (selector ids 1) = Invalid)
      \<longrightarrow> (\<exists>e. fst (makeProgramFromScripts gl doc t ids) = Inl e))
   \<and> (doc (selector ids 0) = Null
      \<longrightarrow> makeProgramFromScripts gl doc t ids = (Inl TypeError, t))
   \<and> (doc (selector ids 0) = Invalid
      \<longrightarrow> makeProgramFromScripts gl doc t ids = (Inl SyntaxError, t))
   \<and> (doc (selector ids 0) = Element vtxt \<and> makeShader gl t vtxt VERTEX_SHADER = (Inl e1, t1)
      \<longrightarrow> makeProgramFromScripts gl doc t ids = (Inl e1, t1))
   \<and> (doc (selector ids 0) = Element vtxt \<and> makeShader gl t vtxt VERTEX_SHADER = (Inr vs, t1)
        \<and> doc (selector ids 1) = Null
      \<longrightarrow> makeProgramFromScripts gl doc t ids = (Inl TypeError, t1))
   \<and> (doc (selector ids 0) = Element vtxt \<and> makeShader gl t vtxt VERTEX_SHADER = (Inr vs, t1)
        \<and> doc (selector ids 1) = Invalid
      \<longrightarrow> makeProgramFromScripts gl doc t ids = (Inl SyntaxError, t1))
   \<and> (doc (selector ids 0) = Element vtxt \<and> makeShader gl t vtxt VERTEX_SHADER = (Inr vs, t1)
        \<and> doc (selector ids 1) = Element ftxt
        \<and> makeShader gl t1 ftxt FRAGMENT_SHADER = (Inl e2, t2)
      \<longrightarrow> makeProgramFromScripts gl doc t ids = (Inl e2, t2))
   \<and> (doc (selector ids 0) = Element vtxt \<and> makeShader gl t vtxt VERTEX_SHADER = (Inr vs, t1)
        \<and> doc (selector ids 1) = Element ftxt
        \<and> makeShader gl t1 ftxt FRAGMENT_SHADER = (Inr fs, t2)
      \<longrightarrow> makeProgramFromScripts gl doc t ids = makeProgram gl t2 vs fs None)"
proof (intro conjI impI)
  assume "doc (selector ids 0) = Null \<or> doc (selector ids 0) = Invalid
       \<or> doc (selector ids 1) = Null \<or> doc (selector ids 1) = Invalid"
  then show "\<exists>e. fst (makeProgramFromScripts gl doc t ids) = Inl e"
    by (auto simp add: makeProgramFromScripts_def split: selected.split prod.split sum.split)
qed (simp_all add: makeProgramFromScripts_def)

theorem makeProgramFromScripts_failures_witness:
  "test_doc (selector [''missing'', ''fragmentShader''] 0) = Null
   \<and> makeProgramFromScripts test_gl test_doc [] [''missing'', ''fragmentShader'']
       = (Inl TypeError, [])
   \<and> test_doc (selector [''1st'', ''fragmentShader''] 0) = Invalid
   \<and> makeProgramFromScripts test_gl test_doc [] [''1st'', ''fragmentShader'']
       = (Inl SyntaxError, [])
   \<and> test_doc (selector [''broken'', ''missing''] 0) = Element ''bad''
   \<and> makeShader test_gl [] ''bad'' VERTEX_SHADER
       = (Inl (Error ''ERROR compiling vertex shader: null''), failed_compile VERTEX_SHADER 1)
   \<and> makeProgramFromScripts test_gl test_doc [] [''broken'', ''missing'']
       = (Inl (Error ''ERROR compiling vertex shader: null''), failed_compile VERTEX_SHADER 1)
   \<and> test_doc (selector [''vertexShader'', ''missing''] 0) = Element ''void main() {}''
   \<and> makeShader test_gl [] ''void main() {}'' VERTEX_SHADER = (Inr 1, take 4 two_shaders)
   \<and> test_doc (selector [''vertexShader'', ''missing''] 1) = Null
   \<and> makeProgramFromScripts test_gl test_doc [] [''vertexShader'', ''missing'']
       = (Inl TypeError, take 4 two_shaders)
   \<and> test_doc (selector [''vertexShader'', ''1st''] 1) = Invalid
   \<and> makeProgramFromScripts test_gl test_doc [] [''vertexShader'', ''1st'']
       = (Inl SyntaxError, take 4 two_shaders)
   \<and> test_doc (selector [''vertexShader'', ''broken''] 1) = Element ''bad''
   \<and> makeShader test_gl (take 4 two_shaders) ''bad'' FRAGMENT_SHADER
       = (Inl (Error ''ERROR compiling fragment shader: null''),
          take 4 two_shaders @ failed_compile FRAGMENT_SHADER 5)
   \<and> makeProgramFromScripts test_gl test_doc [] [''vertexShader'', ''broken'']
       = (Inl (Error ''ERROR compiling fragment shader: null''),
          take 4 two_shaders @ failed_compile FRAGMENT_SHADER 5)
   \<and> test_doc (selector default_shaderIds 1) = Element ''void main() { }''
   \<and> makeShader test_gl (take 4 two_shaders) ''void main() { }'' FRAGMENT_SHADER
       = (Inr 5, two_shaders)
   \<and> makeProgramFromScripts test_gl test_doc [] default_shaderIds
       = makeProgram test_gl two_shaders 1 5 None"
proof -
  have a: "makeProgramFromScripts test_gl test_doc [] [''missing'', ''fragmentShader'']
       = (Inl TypeError, [])"
    using makeProgramFromScripts_failures
      [of test_doc "[''missing'', ''fragmentShader'']" test_gl "[]"] test_ids
    by blast
  have a': "makeProgramFromScripts test_gl test_doc [] [''1st'', ''fragmentShader'']
       = (Inl SyntaxError, [])"
    using makeProgramFromScripts_failures
      [of test_doc "[''1st'', ''fragmentShader'']" test_gl "[]"] test_ids
    by blast
  have b: "makeProgramFromScripts test_gl test_doc [] [''broken'', ''missing'']
       = (Inl (Error ''ERROR compiling vertex shader: null''), failed_compile VERTEX_SHADER 1)"
    using makeProgramFromScripts_failures
      [of test_doc "[''broken'', ''missing'']" test_gl "[]" "''bad''"
          "Error ''ERROR compiling vertex shader: null''" "failed_compile VERTEX_SHADER 1"]
      test_ids test_broken_vertex
    by blast
  have c: "makeProgramFromScripts test_gl test_doc [] [''vertexShader'', ''missing'']
       = (Inl TypeError, take 4 two_shaders)"
    using makeProgramFromScripts_failures
      [of test_doc "[''vertexShader'', ''missing'']" test_gl "[]" "''void main() {}''"
          _ "take 4 two_shaders" 1]
      test_ids test_vertex
    by blast
  have c': "makeProgramFromScripts test_gl test_doc [] [''vertexShader'', ''1st'']
       = (Inl SyntaxError, take 4 two_shaders)"
    using makeProgramFromScripts_failures
      [of test_doc "[''vertexShader'', ''1st'']" test_gl "[]" "''void main() {}''"
          _ "take 4 two_shaders" 1]
      test_ids test_vertex
    by blast
  have d: "makeProgramFromScripts test_gl test_doc [] [''vertexShader'', ''broken'']
       = (Inl (Error ''ERROR compiling fragment shader: null''),
          take 4 two_shaders @ failed_compile FRAGMENT_SHADER 5)"
    using makeProgramFromScripts_failures
      [of test_doc "[''vertexShader'', ''broken'']" test_gl "[]" "''void main() {}''"
          _ "take 4 two_shaders" 1 "''bad''"
          "Error ''ERROR compiling fragment shader: null''"
          "take 4 two_shaders @ failed_compile FRAGMENT_SHADER 5"]
      test_ids test_vertex test_broken_fragment
    by blast
  have e: "makeProgramFromScripts test_gl test_doc [] default_shaderIds
       = makeProgram test_gl two_shaders 1 5 None"
    using makeProgramFromScripts_failures
      [of test_doc default_shaderIds test_gl "[]" "''void main() {}''"
          _ "take 4 two_shaders" 1 "''void main() { }''" _ two_shaders 5]
      test_ids test_vertex test_fragment
    by blast
  show ?thesis
    using a a' b c c' d e test_ids test_vertex test_fragment test_broken_vertex
      test_broken_fragment
    by blast
qed

section \<open>createAttribute: stride and offset\<close>




end
